theory Spec2Isabelle
  imports Complex_Main "HOL-Library.Monad_Syntax"
begin

section \<open>JavaScript numbers and values\<close>

text \<open>
  A JavaScript Number is NaN, one of the two infinities, or a finite value, kept as the
  rational it stands for. Every literal, every parsed string and every result of an
  arithmetic operation is rounded to the nearest double (\<open>number_value\<close> below), so
  that results overflow to an infinity and underflow to zero as they do in the program.
  The sign of zero is not part of this model: \<open>-0\<close> and \<open>0\<close> are the one value
  \<open>Fin 0\<close>.

  The values are those that \<open>JSON.parse\<close> can return, and \<open>undefined\<close>. An object
  is the list of its own properties, each name once.
\<close>

datatype jsnum = NaN | PInf | NInf | Fin rat

datatype jsvalue =
    JUndefined
  | JNull
  | JBool bool
  | JNum jsnum
  | JStr string
  | JArr "jsvalue list"
  | JObj "(string \<times> jsvalue) list"

definition isNaN :: "jsnum \<Rightarrow> bool" where
  "isNaN n = (n = NaN)"

text \<open>The relational operators \<open><\<close> and \<open>>\<close> on Numbers: false as soon as one side is NaN.\<close>

fun js_lt :: "jsnum \<Rightarrow> jsnum \<Rightarrow> bool" where
  "js_lt NaN _ = False"
| "js_lt _ NaN = False"
| "js_lt (Fin a) (Fin b) = (a < b)"
| "js_lt (Fin _) PInf = True"
| "js_lt (Fin _) NInf = False"
| "js_lt NInf NInf = False"
| "js_lt NInf _ = True"
| "js_lt PInf _ = False"

definition js_gt :: "jsnum \<Rightarrow> jsnum \<Rightarrow> bool" where
  "js_gt a b = js_lt b a"

text \<open>\<open>a <= b\<close> on Numbers: \<open>b < a\<close> is false and neither side is NaN.\<close>

definition js_le :: "jsnum \<Rightarrow> jsnum \<Rightarrow> bool" where
  "js_le a b = (a \<noteq> NaN \<and> b \<noteq> NaN \<and> \<not> js_lt b a)"

text \<open>Truthiness of a Number, and \<open>a || b\<close> with a Number on the left.\<close>

definition truthy :: "jsnum \<Rightarrow> bool" where
  "truthy n = (n \<noteq> NaN \<and> n \<noteq> Fin 0)"

definition js_or :: "jsnum \<Rightarrow> jsnum \<Rightarrow> jsnum" where
  "js_or a b = (if truthy a then a else b)"

section \<open>Rounding to double precision\<close>

text \<open>The sign of an infinite result follows the signs of the operands.\<close>

definition signed_inf :: "bool \<Rightarrow> jsnum" where
  "signed_inf negative = (if negative then NInf else PInf)"

text \<open>
  The binary exponent of a positive rational \<open>a\<close>: the \<open>e\<close> with
  \<open>2^e \<le> a < 2^(e+1)\<close>.
\<close>

fun floor_log2 :: "nat \<Rightarrow> nat" where
  "floor_log2 n = (if n < 2 then 0 else Suc (floor_log2 (n div 2)))"

definition binary_exponent :: "rat \<Rightarrow> int" where
  "binary_exponent a =
     (if 1 \<le> a then int (floor_log2 (nat \<lfloor>a\<rfloor>))
      else - int (Suc (floor_log2 (nat (\<lceil>1 / a\<rceil> - 1)))))"

text \<open>
  The spacing of the doubles with binary exponent \<open>e\<close>, 52 bits below: \<open>2^(e-52)\<close>.
\<close>

definition quantum :: "int \<Rightarrow> rat" where
  "quantum e = (if 52 \<le> e then 2 ^ nat (e - 52) else 1 / 2 ^ nat (52 - e))"

text \<open>Rounding to the nearest integer, a tie to the even one.\<close>

definition round_half_even :: "rat \<Rightarrow> int" where
  "round_half_even y =
     (let f = \<lfloor>y\<rfloor>; d = y - of_int f
      in if d < 1 / 2 then f else if 1 / 2 < d then f + 1 else if even f then f else f + 1)"

text \<open>
  The Number value of a rational: the nearest double, a tie to the one with an even
  significand. Below the exponent \<open>-1022\<close> the spacing stays \<open>2^-1074\<close> (subnormal
  numbers, and zero for what is nearer to it); a rounded magnitude of \<open>2^1024\<close> or more
  is an infinity.
\<close>

definition overflow_threshold :: rat where
  "overflow_threshold = 2 ^ 1024"

definition number_value :: "rat \<Rightarrow> jsnum" where
  "number_value x =
     (if x = 0 then Fin 0
      else
        let a = \<bar>x\<bar>;
            q = quantum (max (binary_exponent a) (- 1022));
            r = of_int (round_half_even (a / q)) * q
        in if overflow_threshold \<le> r then signed_inf (x < 0)
           else Fin (if x < 0 then - r else r))"

section \<open>Arithmetic\<close>

text \<open>
  Arithmetic on Numbers, with the special cases of IEEE 754; a finite result is the exact
  one, rounded.
\<close>

fun js_neg :: "jsnum \<Rightarrow> jsnum" where
  "js_neg NaN = NaN"
| "js_neg PInf = NInf"
| "js_neg NInf = PInf"
| "js_neg (Fin a) = Fin (- a)"

fun js_add :: "jsnum \<Rightarrow> jsnum \<Rightarrow> jsnum" where
  "js_add NaN _ = NaN"
| "js_add _ NaN = NaN"
| "js_add (Fin a) (Fin b) = number_value (a + b)"
| "js_add PInf NInf = NaN"
| "js_add NInf PInf = NaN"
| "js_add PInf _ = PInf"
| "js_add NInf _ = NInf"
| "js_add (Fin _) b = b"

fun is_negative :: "jsnum \<Rightarrow> bool" where
  "is_negative NInf = True"
| "is_negative (Fin a) = (a < 0)"
| "is_negative _ = False"

fun js_mul :: "jsnum \<Rightarrow> jsnum \<Rightarrow> jsnum" where
  "js_mul NaN _ = NaN"
| "js_mul _ NaN = NaN"
| "js_mul (Fin a) (Fin b) = number_value (a * b)"
| "js_mul (Fin a) b = (if a = 0 then NaN else signed_inf ((a < 0) \<noteq> is_negative b))"
| "js_mul a (Fin b) = (if b = 0 then NaN else signed_inf (is_negative a \<noteq> (b < 0)))"
| "js_mul a b = signed_inf (is_negative a \<noteq> is_negative b)"

fun js_div :: "jsnum \<Rightarrow> jsnum \<Rightarrow> jsnum" where
  "js_div NaN _ = NaN"
| "js_div _ NaN = NaN"
| "js_div (Fin a) (Fin b) =
     (if b \<noteq> 0 then number_value (a / b) else if a = 0 then NaN else signed_inf (a < 0))"
| "js_div (Fin _) _ = Fin 0"
| "js_div a (Fin b) = signed_inf (is_negative a \<noteq> (b < 0))"
| "js_div _ _ = NaN"

text \<open>\<open>Number.MAX_VALUE\<close>, the largest finite double: \<open>(2 - 2^-52) * 2^1023\<close>.\<close>

definition MAX_VALUE :: jsnum where
  "MAX_VALUE = Fin ((2 - 1 / 2 ^ 52) * 2 ^ 1023)"

section \<open>The built-ins \<open>parseFloat\<close> and \<open>parseInt\<close>\<close>

text \<open>
  Strings are lists of code units below 256. \<open>StrWhiteSpaceChar\<close> in that range: TAB, LF,
  VT, FF, CR, space and the no-break space.
\<close>

definition isWhiteSpace :: "char \<Rightarrow> bool" where
  "isWhiteSpace c = (of_char c \<in> {9::nat, 10, 11, 12, 13, 32, 160})"

definition isDigit :: "char \<Rightarrow> bool" where
  "isDigit c = (48 \<le> (of_char c :: nat) \<and> (of_char c :: nat) \<le> 57)"

definition digitVal :: "char \<Rightarrow> nat" where
  "digitVal c = of_char c - 48"

definition decimalValue :: "string \<Rightarrow> nat" where
  "decimalValue ds = foldl (\<lambda>acc c. 10 * acc + digitVal c) 0 ds"

text \<open>
  \<open>ExponentPart\<close>: \<open>e\<close> or \<open>E\<close>, an optional sign and at least one digit. The result is
  the power of ten to scale by; a rest that is no exponent part scales by one.
\<close>

definition exponentPart :: "string \<Rightarrow> rat" where
  "exponentPart r =
     (case r of
        [] \<Rightarrow> 1
      | c # r1 \<Rightarrow>
          if c = CHR ''e'' \<or> c = CHR ''E'' then
            (case r1 of
               [] \<Rightarrow> 1
             | s # r2 \<Rightarrow>
                 if s = CHR ''-'' then
                   (if takeWhile isDigit r2 = [] then 1
                    else 1 / 10 ^ decimalValue (takeWhile isDigit r2))
                 else if s = CHR ''+'' then
                   (if takeWhile isDigit r2 = [] then 1
                    else 10 ^ decimalValue (takeWhile isDigit r2))
                 else
                   (if takeWhile isDigit r1 = [] then 1
                    else 10 ^ decimalValue (takeWhile isDigit r1)))
          else 1)"

text \<open>
  \<open>StrUnsignedDecimalLiteral\<close>, longest prefix: \<open>Infinity\<close>, or digits with an optional
  fraction and exponent, or a fraction that starts with the dot. No such prefix is NaN;
  otherwise the result is the Number value of the decimal that the prefix writes.
\<close>

definition unsignedLiteral :: "string \<Rightarrow> jsnum" where
  "unsignedLiteral r =
     (if take 8 r = ''Infinity'' then PInf
      else
        let ip = takeWhile isDigit r; r1 = dropWhile isDigit r in
        (case r1 of
           [] \<Rightarrow> if ip = [] then NaN else number_value (of_nat (decimalValue ip))
         | c # r2 \<Rightarrow>
             if c = CHR ''.'' then
               (let fp = takeWhile isDigit r2; r3 = dropWhile isDigit r2 in
                if ip = [] \<and> fp = [] then NaN
                else number_value
                       (of_nat (decimalValue (ip @ fp)) / 10 ^ length fp * exponentPart r3))
             else if ip = [] then NaN
             else number_value (of_nat (decimalValue ip) * exponentPart r1)))"

text \<open>\<open>parseFloat\<close> on a string: leading white space is dropped, then an optional sign.\<close>

definition parseFloat_str :: "string \<Rightarrow> jsnum" where
  "parseFloat_str s =
     (case dropWhile isWhiteSpace s of
        [] \<Rightarrow> NaN
      | c # r \<Rightarrow>
          if c = CHR ''-'' then js_neg (unsignedLiteral r)
          else if c = CHR ''+'' then unsignedLiteral r
          else unsignedLiteral (c # r))"

text \<open>
  \<open>parseFloat\<close> converts its argument to a string first. In what \<open>JSON.parse\<close>
  returns nothing is a function, so an object with a property \<open>toString\<close> of its own
  has no method to convert it, and the conversion throws a TypeError. An array converts
  each of its elements, \<open>null\<close> and \<open>undefined\<close> apart.
\<close>

fun toString_throws :: "jsvalue \<Rightarrow> bool" where
  "toString_throws (JObj kvs) = (map_of kvs ''toString'' \<noteq> None)"
| "toString_throws (JArr xs) = list_ex toString_throws xs"
| "toString_throws _ = False"

text \<open>
  What \<open>parseFloat\<close> reads where the conversion does not throw. \<open>undefined\<close>,
  \<open>null\<close>, booleans and other objects give strings that start with a letter or a
  bracket, so NaN. A Number prints as a literal that reads back as the same Number. An
  array prints its elements joined by commas (nothing for \<open>null\<close> and \<open>undefined\<close>),
  and a comma ends every literal, so only the first element counts.
\<close>

fun parseFloat_text :: "jsvalue \<Rightarrow> jsnum" where
  "parseFloat_text (JStr s) = parseFloat_str s"
| "parseFloat_text (JNum n) = n"
| "parseFloat_text (JArr (x # xs)) = parseFloat_text x"
| "parseFloat_text _ = NaN"

text \<open>\<open>parseFloat\<close> on any value; \<open>None\<close> is the TypeError.\<close>

definition parseFloat :: "jsvalue \<Rightarrow> jsnum option" where
  "parseFloat v = (if toString_throws v then None else Some (parseFloat_text v))"

text \<open>
  \<open>parseFloat\<close> on the value of an input element or of a form field: a string, or
  \<open>undefined\<close> or \<open>null\<close> where there is none, which print as a word, so NaN.
\<close>

definition parseFloat_opt :: "string option \<Rightarrow> jsnum" where
  "parseFloat_opt v = (case v of None \<Rightarrow> NaN | Some s \<Rightarrow> parseFloat_str s)"

section \<open>Settings and their validation\<close>

text \<open>
  \<^verbatim>\<open>
  validateNumber(value, defaultValue, min = 0, max = Number.MAX_VALUE) {
      const num = parseFloat(value);
      if (isNaN(num) || num < min || num > max) { return defaultValue; }
      return num;
  }
  \<close>
  Every call in the program passes all four arguments. \<open>None\<close> is the TypeError of
  \<open>parseFloat\<close>.
\<close>

definition validateNumber :: "jsvalue \<Rightarrow> jsnum \<Rightarrow> jsnum \<Rightarrow> jsnum \<Rightarrow> jsnum option" where
  "validateNumber v defaultValue mn mx =
     (case parseFloat v of
        None \<Rightarrow> None
      | Some num \<Rightarrow>
          Some (if isNaN num \<or> js_lt num mn \<or> js_gt num mx then defaultValue else num))"

text \<open>
  \<open>parseInt\<close> with no radix: white space, an optional sign, then hexadecimal digits after
  \<open>0x\<close> or \<open>0X\<close> and decimal digits otherwise. It is only ever applied to what
  \<open>FormData.get\<close> returns: a string, or \<open>null\<close> when the form has no such field.
\<close>

definition isHexDigit :: "char \<Rightarrow> bool" where
  "isHexDigit c =
     (isDigit c \<or> (97 \<le> (of_char c :: nat) \<and> (of_char c :: nat) \<le> 102)
      \<or> (65 \<le> (of_char c :: nat) \<and> (of_char c :: nat) \<le> 70))"

definition hexVal :: "char \<Rightarrow> nat" where
  "hexVal c =
     (if isDigit c then of_char c - 48
      else if 97 \<le> (of_char c :: nat) then of_char c - 87
      else of_char c - 55)"

definition unsignedInteger :: "string \<Rightarrow> jsnum" where
  "unsignedInteger r =
     (if take 2 r = ''0x'' \<or> take 2 r = ''0X'' then
        (let z = takeWhile isHexDigit (drop 2 r) in
         if z = [] then NaN
         else number_value (of_nat (foldl (\<lambda>acc c. 16 * acc + hexVal c) 0 z)))
      else
        (let z = takeWhile isDigit r in
         if z = [] then NaN else number_value (of_nat (decimalValue z))))"

definition parseInt_str :: "string \<Rightarrow> jsnum" where
  "parseInt_str s =
     (case dropWhile isWhiteSpace s of
        [] \<Rightarrow> NaN
      | c # r \<Rightarrow>
          if c = CHR ''-'' then js_neg (unsignedInteger r)
          else if c = CHR ''+'' then unsignedInteger r
          else unsignedInteger (c # r))"

definition parseInt :: "string option \<Rightarrow> jsnum" where
  "parseInt v = (case v of None \<Rightarrow> NaN | Some s \<Rightarrow> parseInt_str s)"

section \<open>The calculator: settings, storage, pricing\<close>

record settings =
  stitchRate :: jsnum
  appliqueRate :: jsnum
  insuranceRate :: jsnum

text \<open>
  The settings the constructor starts from. The literals \<open>0.50\<close> and \<open>1.00\<close>, like
  the whole numbers of the program, are doubles themselves; \<open>0.10\<close> is not, and stands
  for the double next to it.
\<close>

definition defaultSettings :: settings where
  "defaultSettings =
     \<lparr>stitchRate = Fin 0.50, appliqueRate = Fin 1.00, insuranceRate = number_value 0.10\<rparr>"

text \<open>
  \<open>localStorage\<close>, as far as the program uses it: the entry under the key
  \<open>embcalc-settings\<close>, and whether reading or writing throws (storage blocked, quota
  exceeded). The stored string is kept as what the program can observe of it: it is empty
  (falsy), or \<open>JSON.parse\<close> throws on it, or \<open>JSON.parse\<close> returns a value.
\<close>

datatype stored = EmptyString | Malformed | Json jsvalue

record localStorage =
  item :: "stored option"
  getItem_throws :: bool
  setItem_throws :: bool

text \<open>
  \<open>JSON.stringify(this.settings)\<close>: an object of the three fields; a Number that is not
  finite is written as \<open>null\<close>. Reading the text back with \<open>JSON.parse\<close> gives this value.
\<close>

definition json_number :: "jsnum \<Rightarrow> jsvalue" where
  "json_number n = (case n of Fin x \<Rightarrow> JNum (Fin x) | _ \<Rightarrow> JNull)"

definition JSON_stringify :: "settings \<Rightarrow> stored" where
  "JSON_stringify s =
     Json (JObj [(''stitchRate'', json_number (stitchRate s)),
                 (''appliqueRate'', json_number (appliqueRate s)),
                 (''insuranceRate'', json_number (insuranceRate s))])"

text \<open>
  Reading a property (one that is neither \<open>length\<close> nor an index, and not inherited):
  a TypeError on \<open>null\<close> and \<open>undefined\<close>, here \<open>None\<close>; \<open>undefined\<close> where the value
  has no such property.
\<close>

definition ownProperty :: "(string \<times> jsvalue) list \<Rightarrow> string \<Rightarrow> jsvalue" where
  "ownProperty kvs k = (case map_of kvs k of None \<Rightarrow> JUndefined | Some v \<Rightarrow> v)"

fun getProp :: "jsvalue \<Rightarrow> string \<Rightarrow> jsvalue option" where
  "getProp JNull k = None"
| "getProp JUndefined k = None"
| "getProp (JObj kvs) k = Some (ownProperty kvs k)"
| "getProp _ k = Some JUndefined"

text \<open>What the program does besides changing its settings and the storage.\<close>

datatype event =
    Console_warn
  | Console_error
  | SetItem stored
  | ShowError string
  | ShowSuccess string
  | CloseSettingsModal

record calculator =
  settings :: settings
  storage :: localStorage
  events :: "event list"

definition emit :: "event list \<Rightarrow> calculator \<Rightarrow> calculator" where
  "emit es a = a\<lparr>events := events a @ es\<rparr>"

text \<open>
  \<^verbatim>\<open>
  saveSettings() {
      try { localStorage.setItem('embcalc-settings', JSON.stringify(this.settings)); }
      catch (error) { console.error(...); this.showError('Settings could not be saved. ...'); }
  }
  \<close>
\<close>

definition saveSettings :: "calculator \<Rightarrow> calculator" where
  "saveSettings a =
     (let json = JSON_stringify (settings a) in
      if setItem_throws (storage a) then
        emit [SetItem json, Console_error,
              ShowError ''Settings could not be saved. Please check your browser settings.''] a
      else
        emit [SetItem json] (a\<lparr>storage := (storage a)\<lparr>item := Some json\<rparr>\<rparr>))"

text \<open>The \<open>catch\<close> block of \<open>loadSettings\<close>: a warning, then \<open>saveSettings\<close>.\<close>

definition loadSettings_catch :: "calculator \<Rightarrow> calculator" where
  "loadSettings_catch a = saveSettings (emit [Console_warn] a)"

text \<open>
  \<^verbatim>\<open>
  loadSettings() {
      try {
          const savedSettings = localStorage.getItem('embcalc-settings');
          if (savedSettings) {
              const parsed = JSON.parse(savedSettings);
              this.settings = {
                  stitchRate: this.validateNumber(parsed.stitchRate, 0.50, 0, 10),
                  appliqueRate: this.validateNumber(parsed.appliqueRate, 1.00, 0, 50),
                  insuranceRate: this.validateNumber(parsed.insuranceRate, 0.10, 0, 1)
              };
          }
      } catch (error) { console.warn(...); this.saveSettings(); }
  }
  \<close>
\<close>

text \<open>The \<open>try\<close> block; \<open>None\<close> when it throws.\<close>

definition loadSettings_try :: "calculator \<Rightarrow> calculator option" where
  "loadSettings_try a =
     (if getItem_throws (storage a) then None
      else
        (case item (storage a) of
           None \<Rightarrow> Some a
         | Some EmptyString \<Rightarrow> Some a
         | Some Malformed \<Rightarrow> None
         | Some (Json parsed) \<Rightarrow>
             do {
               sr \<leftarrow> getProp parsed ''stitchRate'';
               s1 \<leftarrow> validateNumber sr (Fin 0.50) (Fin 0) (Fin 10);
               ar \<leftarrow> getProp parsed ''appliqueRate'';
               s2 \<leftarrow> validateNumber ar (Fin 1.00) (Fin 0) (Fin 50);
               ir \<leftarrow> getProp parsed ''insuranceRate'';
               s3 \<leftarrow> validateNumber ir (number_value 0.10) (Fin 0) (Fin 1);
               Some (a\<lparr>settings := \<lparr>stitchRate = s1, appliqueRate = s2, insuranceRate = s3\<rparr>\<rparr>)
             }))"

definition loadSettings :: "calculator \<Rightarrow> calculator" where
  "loadSettings a =
     (case loadSettings_try a of None \<Rightarrow> loadSettings_catch a | Some a' \<Rightarrow> a')"

text \<open>
  The constructor: the default settings, then \<open>loadSettings\<close>. (Its two other calls only
  touch the page.)
\<close>

definition new_EmbroideryCalculator :: "localStorage \<Rightarrow> calculator" where
  "new_EmbroideryCalculator st =
     loadSettings \<lparr>settings = defaultSettings, storage = st, events = []\<rparr>"

text \<open>
  The settings form: the \<open>value\<close> of each of its three inputs, \<open>None\<close> where the page has
  no such element (\<open>?.value\<close> is then \<open>undefined\<close>).
\<close>

record settingsForm =
  stitch_rate_input :: "string option"
  applique_rate_input :: "string option"
  insurance_rate_input :: "string option"

text \<open>
  \<^verbatim>\<open>
  saveSettingsFromForm() {
      const stitchRate = parseFloat(document.getElementById('stitch-rate-input')?.value) || 0.50;
      const appliqueRate = parseFloat(document.getElementById('applique-rate-input')?.value) || 1.00;
      const insuranceRate = parseFloat(document.getElementById('insurance-rate-input')?.value) / 100 || 0.10;
      this.settings = {
          stitchRate: this.validateNumber(stitchRate, 0.50, 0, 10),
          appliqueRate: this.validateNumber(appliqueRate, 1.00, 0, 50),
          insuranceRate: this.validateNumber(insuranceRate, 0.10, 0, 1)
      };
      this.saveSettings();
      this.closeSettingsModal();
      this.showSuccess('Settings saved successfully!');
  }
  \<close>
\<close>

text \<open>
  The body of the method; \<open>None\<close> when a call of \<open>validateNumber\<close> throws, which ends
  the method before anything has changed.
\<close>

definition saveSettingsFromForm_try :: "settingsForm \<Rightarrow> calculator \<Rightarrow> calculator option" where
  "saveSettingsFromForm_try f a =
     (let stitchRate_in = js_or (parseFloat_opt (stitch_rate_input f)) (Fin 0.50);
          appliqueRate_in = js_or (parseFloat_opt (applique_rate_input f)) (Fin 1.00);
          insuranceRate_in =
            js_or (js_div (parseFloat_opt (insurance_rate_input f)) (Fin 100)) (number_value 0.10)
      in do {
           s1 \<leftarrow> validateNumber (JNum stitchRate_in) (Fin 0.50) (Fin 0) (Fin 10);
           s2 \<leftarrow> validateNumber (JNum appliqueRate_in) (Fin 1.00) (Fin 0) (Fin 50);
           s3 \<leftarrow> validateNumber (JNum insuranceRate_in) (number_value 0.10) (Fin 0) (Fin 1);
           Some (emit [CloseSettingsModal, ShowSuccess ''Settings saved successfully!'']
                  (saveSettings
                     (a\<lparr>settings :=
                          \<lparr>stitchRate = s1, appliqueRate = s2, insuranceRate = s3\<rparr>\<rparr>)))
         })"

definition saveSettingsFromForm :: "settingsForm \<Rightarrow> calculator \<Rightarrow> calculator" where
  "saveSettingsFromForm f a =
     (case saveSettingsFromForm_try f a of None \<Rightarrow> a | Some a' \<Rightarrow> a')"

section \<open>The order form\<close>

text \<open>
  A number input of the order form, as \<open>validateInput\<close> reads it: its name, its current
  value, and the \<open>required\<close>, \<open>min\<close> and \<open>max\<close> attributes its markup gives it (the
  empty string for an attribute that is not set). The markup is not part of the program.
\<close>

record input =
  i_name :: string
  i_value :: string
  i_required :: bool
  i_min :: string
  i_max :: string

text \<open>
  \<^verbatim>\<open>
  validateInput(input) {
      const value = parseFloat(input.value);
      ...
      if (input.value === '' && !input.required) { return true; }
      if (input.required && (input.value === '' || isNaN(value))) { ...; return false; }
      const min = parseFloat(input.min) || 0;
      const max = parseFloat(input.max) || Number.MAX_VALUE;
      if (!isNaN(value) && (value < min || value > max)) { ...; return false; }
      return true;
  }
  \<close>
  The error texts it shows on the page are left out.
\<close>

definition validateInput :: "input \<Rightarrow> bool" where
  "validateInput i =
     (let v = parseFloat_str (i_value i) in
      if i_value i = [] \<and> \<not> i_required i then True
      else if i_required i \<and> (i_value i = [] \<or> isNaN v) then False
      else
        (let mn = js_or (parseFloat_str (i_min i)) (Fin 0);
             mx = js_or (parseFloat_str (i_max i)) MAX_VALUE
         in if \<not> isNaN v \<and> (js_lt v mn \<or> js_gt v mx) then False else True))"

record orderInput =
  stitches :: jsnum
  items :: jsnum
  appliques :: jsnum
  blankCost :: jsnum
  designCost :: jsnum

text \<open>
  The form is the list of its number inputs, in document order; the five fields of an
  order are among them. \<open>FormData.get\<close> gives the value of the first field of a name.
\<close>

definition formData_get :: "input list \<Rightarrow> string \<Rightarrow> string option" where
  "formData_get form k = map_option i_value (find (\<lambda>i. i_name i = k) form)"

text \<open>
  \<^verbatim>\<open>
  getFormData() {
      ...
      inputs.forEach(input => { if (!this.validateInput(input)) { isValid = false; } });
      if (!isValid) { this.showError(...); return null; }
      return {
          stitches: parseInt(formData.get('stitches')) || 0,
          items: parseInt(formData.get('items')) || 1,
          appliques: parseInt(formData.get('appliques')) || 0,
          blankCost: parseFloat(formData.get('blankCost')) || 0,
          designCost: parseFloat(formData.get('designCost')) || 0
      };
  }
  \<close>
  \<open>None\<close> is the \<open>null\<close> it returns when an input is invalid.
\<close>

definition getFormData :: "input list \<Rightarrow> orderInput option" where
  "getFormData form =
     (if \<not> list_all validateInput form then None
      else Some
        \<lparr>stitches = js_or (parseInt (formData_get form ''stitches'')) (Fin 0),
         items = js_or (parseInt (formData_get form ''items'')) (Fin 1),
         appliques = js_or (parseInt (formData_get form ''appliques'')) (Fin 0),
         blankCost = js_or (parseFloat_opt (formData_get form ''blankCost'')) (Fin 0),
         designCost = js_or (parseFloat_opt (formData_get form ''designCost'')) (Fin 0)\<rparr>)"

record priceBreakdown =
  stitchCost :: jsnum
  appliqueCost :: jsnum
  blankCostOut :: jsnum
  insuranceCost :: jsnum
  designCostOut :: jsnum
  perItemCost :: jsnum
  totalCost :: jsnum

text \<open>
  \<^verbatim>\<open>
  performCalculations(data) {
      const stitchCost = (data.stitches / 1000) * this.settings.stitchRate;
      const appliqueCost = data.appliques * this.settings.appliqueRate;
      const blankCost = data.blankCost;
      const insuranceCost = blankCost * this.settings.insuranceRate;
      const designCost = data.designCost;
      const perItemCost = stitchCost + appliqueCost + blankCost + insuranceCost + designCost;
      const totalCost = perItemCost * data.items;
      return { stitchCost, appliqueCost, blankCost, insuranceCost, designCost, perItemCost, totalCost };
  }
  \<close>
  The fields \<open>blankCost\<close> and \<open>designCost\<close> of the result are \<open>blankCostOut\<close> and
  \<open>designCostOut\<close> here.
\<close>

definition performCalculations :: "settings \<Rightarrow> orderInput \<Rightarrow> priceBreakdown" where
  "performCalculations s d =
     (let c_stitch = js_mul (js_div (stitches d) (Fin 1000)) (stitchRate s);
          c_applique = js_mul (appliques d) (appliqueRate s);
          c_blank = blankCost d;
          c_insurance = js_mul c_blank (insuranceRate s);
          c_design = designCost d;
          c_perItem =
            js_add (js_add (js_add (js_add c_stitch c_applique) c_blank) c_insurance) c_design;
          c_total = js_mul c_perItem (items d)
      in \<lparr>stitchCost = c_stitch, appliqueCost = c_applique, blankCostOut = c_blank,
          insuranceCost = c_insurance, designCostOut = c_design, perItemCost = c_perItem,
          totalCost = c_total\<rparr>)"

text \<open>
  \<open>calculatePrice\<close>: the breakdown it hands to \<open>displayResults\<close>, or \<open>None\<close> when
  \<open>getFormData\<close> returned \<open>null\<close> and it returned before \<open>performCalculations\<close>.
\<close>

definition calculatePrice :: "calculator \<Rightarrow> input list \<Rightarrow> priceBreakdown option" where
  "calculatePrice a form =
     (case getFormData form of
        None \<Rightarrow> None
      | Some formData \<Rightarrow> Some (performCalculations (settings a) formData))"

section \<open>Notions used in the statements\<close>

text \<open>The declared ranges of the three settings.\<close>

definition settings_ok :: "settings \<Rightarrow> bool" where
  "settings_ok s =
     (js_le (Fin 0) (stitchRate s) \<and> js_le (stitchRate s) (Fin 10)
      \<and> js_le (Fin 0) (appliqueRate s) \<and> js_le (appliqueRate s) (Fin 50)
      \<and> js_le (Fin 0) (insuranceRate s) \<and> js_le (insuranceRate s) (Fin 1))"

text \<open>
  What can happen to a calculator after its construction: the settings form is submitted
  with some values, \<open>loadSettings\<close> runs again, or the storage changes under it (another
  page, the user).
\<close>

datatype action =
    SubmitSettingsForm settingsForm
  | LoadSettings
  | StorageChanged localStorage

fun step :: "calculator \<Rightarrow> action \<Rightarrow> calculator" where
  "step a (SubmitSettingsForm f) = saveSettingsFromForm f a"
| "step a LoadSettings = loadSettings a"
| "step a (StorageChanged st) = a\<lparr>storage := st\<rparr>"

text \<open>
  A stored field that is a finite number inside its range, and one that \<open>parseFloat\<close>
  reads as something else: NaN, an infinity, or a number outside the range.
\<close>

definition valid_field :: "jsvalue \<Rightarrow> rat \<Rightarrow> rat \<Rightarrow> bool" where
  "valid_field raw lo hi = (case raw of JNum (Fin x) \<Rightarrow> lo \<le> x \<and> x \<le> hi | _ \<Rightarrow> False)"

definition corrupt_field :: "jsvalue \<Rightarrow> rat \<Rightarrow> rat \<Rightarrow> bool" where
  "corrupt_field raw lo hi =
     (case parseFloat raw of
        None \<Rightarrow> False
      | Some (Fin x) \<Rightarrow> x < lo \<or> hi < x
      | Some _ \<Rightarrow> True)"

text \<open>
  A parsed value whose settings cannot be read at all: it is \<open>null\<close>, or one of the
  three fields cannot be converted to a string.
\<close>

definition field_throws :: "jsvalue \<Rightarrow> string \<Rightarrow> bool" where
  "field_throws v k = (case getProp v k of None \<Rightarrow> True | Some raw \<Rightarrow> toString_throws raw)"

definition record_throws :: "jsvalue \<Rightarrow> bool" where
  "record_throws v =
     (field_throws v ''stitchRate'' \<or> field_throws v ''appliqueRate''
      \<or> field_throws v ''insuranceRate'')"

text \<open>
  Reading the stored settings throws: the storage cannot be read, \<open>JSON.parse\<close> throws,
  or the parsed value cannot be read.
\<close>

definition load_throws :: "localStorage \<Rightarrow> bool" where
  "load_throws st =
     (getItem_throws st
      \<or> (case item st of Some Malformed \<Rightarrow> True | Some (Json v) \<Rightarrow> record_throws v
          | _ \<Rightarrow> False))"

text \<open>
  A parsed value of the wrong shape: it gives no usable number for any of the three
  settings. It cannot be read, or each of the three fields is missing, is not a finite
  number, or is outside its range.
\<close>

definition unusable :: "jsvalue \<Rightarrow> string \<Rightarrow> rat \<Rightarrow> rat \<Rightarrow> bool" where
  "unusable v k lo hi = (case getProp v k of None \<Rightarrow> True | Some raw \<Rightarrow> corrupt_field raw lo hi)"

definition wrong_shape :: "jsvalue \<Rightarrow> bool" where
  "wrong_shape v =
     (record_throws v
      \<or> (unusable v ''stitchRate'' 0 10 \<and> unusable v ''appliqueRate'' 0 50
          \<and> unusable v ''insuranceRate'' 0 1))"

text \<open>
  The value of an input of the settings form as a stored field would hold it: the string,
  or nothing where the page has no such element.
\<close>

definition elementValue :: "string option \<Rightarrow> jsvalue" where
  "elementValue v = (case v of None \<Rightarrow> JUndefined | Some s \<Rightarrow> JStr s)"

text \<open>What \<open>validateNumber\<close> returns once \<open>parseFloat\<close> has given a Number.\<close>

definition accept :: "jsnum \<Rightarrow> jsnum \<Rightarrow> jsnum \<Rightarrow> jsnum \<Rightarrow> jsnum" where
  "accept num d mn mx = (if isNaN num \<or> js_lt num mn \<or> js_gt num mx then d else num)"

text \<open>Whether a run called \<open>setItem\<close> with the default settings.\<close>

definition saved_defaults :: "calculator \<Rightarrow> bool" where
  "saved_defaults a = (SetItem (JSON_stringify defaultSettings) \<in> set (events a))"

text \<open>
  A character that no numeric literal continues with: not a digit, not white space, and
  none of the characters of a sign, a fraction, an exponent or \<open>Infinity\<close>.
\<close>

definition stopChar :: "char \<Rightarrow> bool" where
  "stopChar c = (\<not> isDigit c \<and> \<not> isWhiteSpace c \<and> c \<notin> set ''+-.eEInfinity'')"

section \<open>Rounding: how to compute it\<close>

declare floor_log2.simps [simp del]

lemma floor_log2_bounds: "0 < n \<Longrightarrow> 2 ^ floor_log2 n \<le> n \<and> n < 2 ^ Suc (floor_log2 n)"
proof (induction n rule: floor_log2.induct)
  case (1 n)
  show ?case
  proof (cases "n < 2")
    case True
    with 1(2) have "n = 1" by simp
    then show ?thesis by (simp add: floor_log2.simps)
  next
    case False
    then have "0 < n div 2" by simp
    with 1(1) False have ih: "2 ^ floor_log2 (n div 2) \<le> n div 2"
      "n div 2 < 2 ^ Suc (floor_log2 (n div 2))" by simp_all
    have f: "floor_log2 n = Suc (floor_log2 (n div 2))"
      using False by (subst floor_log2.simps) simp
    from ih show ?thesis unfolding f by simp linarith
  qed
qed

lemma floor_log2_eqI:
  assumes "2 ^ k \<le> n" "n < 2 ^ Suc k"
  shows "floor_log2 n = k"
proof -
  from assms(1) have p: "0 < n" by (metis less_le_trans zero_less_numeral zero_less_power)
  note b = floor_log2_bounds [OF p]
  have "2 ^ k < (2::nat) ^ Suc (floor_log2 n)" using assms(1) b by linarith
  then have 1: "k < Suc (floor_log2 n)" by (simp only: power_strict_increasing_iff one_less_numeral_iff semiring_norm)
  have "2 ^ floor_log2 n < (2::nat) ^ Suc k" using assms(2) b by linarith
  then have 2: "floor_log2 n < Suc k" by (simp only: power_strict_increasing_iff one_less_numeral_iff semiring_norm)
  from 1 2 show ?thesis by simp
qed

lemma binary_exponent_nonneg:
  assumes "2 ^ k \<le> a" "a < 2 ^ Suc k"
  shows "binary_exponent a = int k"
proof -
  have "(1::rat) \<le> 2 ^ k" by simp
  with assms(1) have one: "1 \<le> a" by linarith
  have "of_int (2 ^ k) \<le> a" using assms(1) by simp
  then have lo: "2 ^ k \<le> \<lfloor>a\<rfloor>" by (simp only: le_floor_iff)
  have "a < of_int (2 ^ Suc k)" using assms(2) by simp
  then have hi: "\<lfloor>a\<rfloor> < 2 ^ Suc k" by (simp only: floor_less_iff)
  have "(0::int) \<le> 2 ^ k" by simp
  with lo have nn: "0 \<le> \<lfloor>a\<rfloor>" by linarith
  have "2 ^ k \<le> nat \<lfloor>a\<rfloor>" using lo nn by (metis nat_mono nat_numeral nat_power_eq zero_le_numeral)
  moreover have "nat \<lfloor>a\<rfloor> < 2 ^ Suc k"
    using hi nn by (metis nat_less_iff of_nat_numeral of_nat_power)
  ultimately have "floor_log2 (nat \<lfloor>a\<rfloor>) = k" by (rule floor_log2_eqI)
  with one show ?thesis by (simp add: binary_exponent_def)
qed

lemma binary_exponent_neg:
  assumes "1 / 2 ^ Suc j \<le> a" "a < 2 / 2 ^ Suc j"
  shows "binary_exponent a = - int (Suc j)"
proof -
  have "(0::rat) < 1 / 2 ^ Suc j" by simp
  with assms(1) have pos: "0 < a" by linarith
  have "a < 1 / 2 ^ j" using assms(2) by simp
  moreover have "1 / 2 ^ j \<le> (1::rat)" by simp
  ultimately have lt1: "a < 1" by linarith
  have up: "1 / a \<le> 2 ^ Suc j"
    using assms(1) pos by (simp add: field_simps)
  have dn: "2 ^ j < 1 / a"
    using \<open>a < 1 / 2 ^ j\<close> pos by (simp add: field_simps)
  have "1 / a \<le> of_int (2 ^ Suc j)" using up by simp
  then have c1: "\<lceil>1 / a\<rceil> \<le> 2 ^ Suc j" by (simp only: ceiling_le_iff)
  have "of_int (2 ^ j) < 1 / a" using dn by simp
  then have c2: "2 ^ j < \<lceil>1 / a\<rceil>" by (simp only: less_ceiling_iff)
  define m where "m = \<lceil>1 / a\<rceil> - 1"
  from c1 c2 have m: "2 ^ j \<le> m" "m < 2 ^ Suc j" by (simp_all add: m_def)
  moreover have "(0::int) \<le> 2 ^ j" by simp
  ultimately have nn: "0 \<le> m" by linarith
  have "2 ^ j \<le> nat m" using m(1) nn by (metis nat_mono nat_numeral nat_power_eq zero_le_numeral)
  moreover have "nat m < 2 ^ Suc j"
    using m(2) nn by (metis nat_less_iff of_nat_numeral of_nat_power)
  ultimately have "floor_log2 (nat m) = j" by (rule floor_log2_eqI)
  with lt1 show ?thesis by (simp add: binary_exponent_def m_def)
qed

lemma round_half_even_down:
  "\<lfloor>y\<rfloor> = f \<Longrightarrow> y - of_int f < 1 / 2 \<Longrightarrow> round_half_even y = f"
  by (simp add: round_half_even_def Let_def)

lemma round_half_even_up:
  "\<lfloor>y\<rfloor> = f \<Longrightarrow> 1 / 2 < y - of_int f \<Longrightarrow> round_half_even y = f + 1"
  by (simp add: round_half_even_def Let_def)

lemma round_half_even_near:
  assumes "\<bar>y - of_int n\<bar> < 1 / 2"
  shows "round_half_even y = n"
proof (cases "of_int n \<le> y")
  case True
  with assms have "\<lfloor>y\<rfloor> = n" by (intro floor_unique) linarith+
  moreover from assms True have "y - of_int n < 1 / 2" by linarith
  ultimately show ?thesis by (rule round_half_even_down)
next
  case False
  have e: "(of_int (n - 1) :: rat) = of_int n - 1" by simp
  from assms False have "of_int (n - 1) \<le> y" "y < of_int (n - 1) + 1"
    unfolding e by linarith+
  then have "\<lfloor>y\<rfloor> = n - 1" by (rule floor_unique)
  moreover from assms False have "1 / 2 < y - of_int (n - 1)"
    unfolding e by linarith
  ultimately have "round_half_even y = n - 1 + 1" by (rule round_half_even_up)
  then show ?thesis by simp
qed

lemma number_value_normal:
  assumes "0 < x" "binary_exponent x = e" "- 1022 \<le> e"
    and "round_half_even (x / quantum e) = n" and "of_int n * quantum e < overflow_threshold"
  shows "number_value x = Fin (of_int n * quantum e)"
  using assms by (auto simp: number_value_def Let_def max_def)

lemma number_value_minus: "number_value (- x) = js_neg (number_value x)"
  by (simp add: number_value_def Let_def signed_inf_def)


lemma overflow_threshold_gt: "2 ^ 54 < overflow_threshold"
  unfolding overflow_threshold_def
  by (rule power_strict_increasing) simp_all




lemma number_value_below_one:
  assumes "1 / 2 ^ Suc j \<le> x" "x < 2 / 2 ^ Suc j" "Suc j \<le> 1022"
    and "\<bar>x * 2 ^ (53 + j) - of_int n\<bar> < 1 / 2"
  shows "number_value x = Fin (of_int n / 2 ^ (53 + j))"
proof -
  have "(0::rat) < 1 / 2 ^ Suc j" by simp
  with assms(1) have pos: "0 < x" by linarith
  have e: "binary_exponent x = - int (Suc j)" using assms(1,2) by (rule binary_exponent_neg)
  have q: "quantum (- int (Suc j)) = 1 / 2 ^ (53 + j)"
    by (simp add: quantum_def nat_add_distrib)
  have xq: "x / quantum (- int (Suc j)) = x * 2 ^ (53 + j)"
    unfolding q by simp
  have r: "round_half_even (x / quantum (- int (Suc j))) = n"
    unfolding xq using assms(4) by (rule round_half_even_near)
  have "(2::rat) / 2 ^ Suc j = 1 / 2 ^ j" by simp
  moreover have "1 / 2 ^ j \<le> (1::rat)" by simp
  ultimately have "x < 1" using assms(2) by linarith
  have p: "(0::rat) < 2 ^ (53 + j)" by simp
  have "(of_int n :: rat) < x * 2 ^ (53 + j) + 1" using assms(4) by linarith
  also have "\<dots> < 1 * 2 ^ (53 + j) + 1" using \<open>x < 1\<close> p by (simp del: power_add)
  finally have "(of_int n :: rat) / 2 ^ (53 + j) < (1 * 2 ^ (53 + j) + 1) / 2 ^ (53 + j)"
    using p by (simp only: divide_strict_right_mono)
  also have "\<dots> = 1 + 1 / 2 ^ (53 + j)" by (simp add: field_simps del: power_add)
  also have "\<dots> \<le> 1 + 1" by (simp del: power_add)
  also have "\<dots> < 2 ^ 54" by simp
  finally have "of_int n / 2 ^ (53 + j) < overflow_threshold"
    using overflow_threshold_gt by linarith
  then have o: "of_int n * quantum (- int (Suc j)) < overflow_threshold"
    unfolding q by simp
  have "- 1022 \<le> - int (Suc j)" using assms(3) by simp
  from number_value_normal [OF pos e this r o] show ?thesis
    unfolding q by simp
qed




lemma number_value_above_one:
  assumes "2 ^ k \<le> x" "x < 2 ^ Suc k" "k \<le> 52"
    and "\<bar>x * 2 ^ (52 - k) - of_int n\<bar> < 1 / 2"
  shows "number_value x = Fin (of_int n / 2 ^ (52 - k))"
proof -
  have "(0::rat) < 2 ^ k" by simp
  with assms(1) have pos: "0 < x" by linarith
  have e: "binary_exponent x = int k" using assms(1,2) by (rule binary_exponent_nonneg)
  have q: "quantum (int k) = 1 / 2 ^ (52 - k)"
    using assms(3) by (auto simp: quantum_def nat_diff_distrib')
  have r: "round_half_even (x / quantum (int k)) = n"
    using assms(4) by (intro round_half_even_near) (simp add: q)
  have p: "(0::rat) < 2 ^ (52 - k)" by simp
  have "(2::rat) ^ Suc k * 2 ^ (52 - k) = 2 ^ 53"
    using assms(3) by (simp add: power_add [symmetric] del: power_Suc)
  have "(of_int n :: rat) < x * 2 ^ (52 - k) + 1" using assms(4) by linarith
  then have "(of_int n :: rat) / 2 ^ (52 - k) < (x * 2 ^ (52 - k) + 1) / 2 ^ (52 - k)"
    using p by (simp only: divide_strict_right_mono)
  also have "\<dots> = x + 1 / 2 ^ (52 - k)" by (simp add: field_simps)
  also have "\<dots> \<le> x + 1" by simp
  also have "\<dots> < 2 ^ Suc k + 1" using assms(2) by simp
  also have "\<dots> \<le> 2 ^ 53 + 1"
    using assms(3) by (simp only: add_le_cancel_right) (rule power_increasing, simp_all)
  also have "\<dots> < 2 ^ 54" by simp
  finally have o: "of_int n * quantum (int k) < overflow_threshold"
    using overflow_threshold_gt by (simp add: q)
  show ?thesis
    using number_value_normal [OF pos e _ r o] by (simp add: q)
qed




lemma number_value_nat:
  assumes "0 < m" "m < 2 ^ 53"
  shows "number_value (of_nat m) = Fin (of_nat m)"
proof -
  define k where "k = floor_log2 m"
  from floor_log2_bounds [OF assms(1)] have b: "2 ^ k \<le> m" "m < 2 ^ Suc k"
    by (simp_all add: k_def)
  from b(1) assms(2) have "(2::nat) ^ k < 2 ^ 53" by linarith
  then have "k < 53" by (simp only: power_strict_increasing_iff one_less_numeral_iff semiring_norm)
  then have k: "k \<le> 52" by simp
  have 1: "2 ^ k \<le> (of_nat m :: rat)" using b(1) by (metis of_nat_le_iff of_nat_numeral of_nat_power)
  have 2: "(of_nat m :: rat) < 2 ^ Suc k" using b(2) by (metis of_nat_less_iff of_nat_numeral of_nat_power)
  have 3: "\<bar>of_nat m * 2 ^ (52 - k) - of_int (int (m * 2 ^ (52 - k)))\<bar> < (1::rat) / 2"
    by simp
  from number_value_above_one [OF 1 2 k 3] show ?thesis by simp
qed




lemma number_value_numeral:
  "(numeral w :: nat) < 2 ^ 53 \<Longrightarrow> number_value (numeral w) = Fin (numeral w)"
  using number_value_nat [of "numeral w"] by simp

lemma number_value_zero [simp]: "number_value 0 = Fin 0"
  by (simp add: number_value_def)

lemma number_value_one [simp]: "number_value 1 = Fin 1"
  using number_value_nat [of 1] by simp





text \<open>Below half of the least positive double, a value rounds to zero.\<close>

lemma binary_exponent_small:
  assumes "0 < x" "x < 1 / 2 ^ k"
  shows "binary_exponent x < - int k"
proof -
  have "1 / 2 ^ k \<le> (1::rat)" by simp
  with assms(2) have lt1: "x < 1" by linarith
  have "2 ^ k < 1 / x" using assms by (simp add: field_simps)
  then have "of_int (2 ^ k) < 1 / x" by simp
  then have c: "2 ^ k < \<lceil>1 / x\<rceil>" by (simp only: less_ceiling_iff)
  define m where "m = nat (\<lceil>1 / x\<rceil> - 1)"
  from c have "2 ^ k \<le> \<lceil>1 / x\<rceil> - 1" by simp
  then have m: "2 ^ k \<le> m"
    unfolding m_def by (metis nat_mono nat_numeral nat_power_eq zero_le_numeral)
  then have "0 < m" by (metis less_le_trans zero_less_numeral zero_less_power)
  from floor_log2_bounds [OF this] m have "(2::nat) ^ k < 2 ^ Suc (floor_log2 m)" by linarith
  then have "k < Suc (floor_log2 m)"
    by (simp only: power_strict_increasing_iff one_less_numeral_iff semiring_norm)
  with lt1 show ?thesis by (simp add: binary_exponent_def m_def)
qed

lemma number_value_subnormal:
  assumes "0 < x" "x < 1 / 2 ^ 1022" and "\<bar>x * 2 ^ 1074 - of_int n\<bar> < 1 / 2"
  shows "number_value x = Fin (of_int n / 2 ^ 1074)"
proof -
  from binary_exponent_small [OF assms(1,2)] have m: "max (binary_exponent x) (- 1022) = - 1022"
    by simp
  have q: "quantum (- 1022) = 1 / 2 ^ 1074" by (simp add: quantum_def)
  have r: "round_half_even (x / (1 / 2 ^ 1074)) = n"
    using assms(3) by (intro round_half_even_near) (simp only: div_by_1 divide_divide_eq_right mult_1)
  have p: "(0::rat) < 2 ^ 1074" by (rule zero_less_power) simp
  have "x * 2 ^ 1074 < 1 / 2 ^ 1022 * 2 ^ 1074"
    using assms(2) p by (simp only: mult_strict_right_mono)
  also have "\<dots> = 2 ^ 52"
    by (simp only: times_divide_eq_left mult_1) (simp only: power_diff [symmetric, of 2 1022 1074], simp)
  finally have "(of_int n :: rat) < 2 ^ 52 + 1" using assms(3) by linarith
  then have "(of_int n :: rat) / 2 ^ 1074 < (2 ^ 52 + 1) / 2 ^ 1074"
    using p by (simp only: divide_strict_right_mono)
  also have "\<dots> \<le> (2 ^ 52 + 1) / 1"
    by (rule divide_left_mono) (simp_all only: one_le_power one_le_numeral, simp_all)
  also have "\<dots> < 2 ^ 54" by simp
  finally have o: "of_int n / 2 ^ 1074 < overflow_threshold"
    using overflow_threshold_gt by linarith
  from assms(1) have nz: "x \<noteq> 0" "\<not> x < 0" "\<bar>x\<bar> = x" by simp_all
  from o have o': "\<not> overflow_threshold \<le> of_int n * (1 / 2 ^ 1074)" by simp
  show ?thesis
    unfolding number_value_def Let_def nz(3) m q r
    by (simp only: nz(1,2) o' if_False) simp
qed

text \<open>Whole numbers below \<open>2^53\<close> are doubles; \<open>0.1\<close> is not.\<close>

declare number_value_numeral [simp]

lemma number_value_tenth [simp]:
  "number_value (1 / 10) = Fin (3602879701896397 / 36028797018963968)"
  using number_value_below_one [of 3 "1 / 10" 7205759403792794] by simp

lemma number_value_half [simp]: "number_value (1 / 2) = Fin (1 / 2)"
  using number_value_below_one [of 0 "1 / 2" 4503599627370496] by simp

section \<open>Basic facts\<close>

lemmas parse_defs = parseFloat_str_def unsignedLiteral_def exponentPart_def isWhiteSpace_def
  isDigit_def digitVal_def decimalValue_def

lemma js_le_not_lt: "js_le a b \<Longrightarrow> \<not> js_lt b a"
  by (simp add: js_le_def)

lemma js_le_Fin_Fin: "js_le (Fin a) (Fin b) = (a \<le> b)"
  by (simp add: js_le_def not_less)

lemma in_range_Fin:
  "js_le (Fin lo) n \<and> js_le n (Fin hi) \<longleftrightarrow> (\<exists>x. n = Fin x \<and> lo \<le> x \<and> x \<le> hi)"
  by (cases n) (auto simp: js_le_def not_less)

lemma parseFloat_simps [simp]:
  "parseFloat (JStr s) = Some (parseFloat_str s)"
  "parseFloat (JNum n) = Some n"
  "parseFloat JUndefined = Some NaN"
  "parseFloat JNull = Some NaN"
  by (simp_all add: parseFloat_def)

lemma parseFloat_elementValue [simp]: "parseFloat (elementValue v) = Some (parseFloat_opt v)"
  by (cases v) (simp_all add: elementValue_def parseFloat_opt_def)

lemma validateNumber_accept:
  "validateNumber v d mn mx = map_option (\<lambda>num. accept num d mn mx) (parseFloat v)"
  by (simp add: validateNumber_def accept_def split: option.splits)

lemma accept_Fin_bounds:
  "accept n d (Fin lo) (Fin hi) =
     (case n of Fin x \<Rightarrow> if lo \<le> x \<and> x \<le> hi then Fin x else d | _ \<Rightarrow> d)"
  by (cases n) (auto simp: accept_def isNaN_def js_gt_def)

lemma accept_in_range:
  assumes "lo \<le> dx" "dx \<le> hi"
  shows "js_le (Fin lo) (accept n (Fin dx) (Fin lo) (Fin hi))
       \<and> js_le (accept n (Fin dx) (Fin lo) (Fin hi)) (Fin hi)"
  using assms by (cases n) (auto simp: accept_Fin_bounds js_le_Fin_Fin)

lemma settings_emit [simp]: "settings (emit es a) = settings a"
  by (simp add: emit_def)

lemma storage_emit [simp]: "storage (emit es a) = storage a"
  by (simp add: emit_def)

lemma events_emit [simp]: "events (emit es a) = events a @ es"
  by (simp add: emit_def)

lemma settings_saveSettings [simp]: "settings (saveSettings a) = settings a"
  by (simp add: saveSettings_def Let_def)

lemma settings_catch [simp]: "settings (loadSettings_catch a) = settings a"
  by (simp add: loadSettings_catch_def)

text \<open>The two ways out of the \<open>try\<close> block of \<open>loadSettings\<close> that do not throw.\<close>

lemma loadSettings_try_Some:
  assumes "loadSettings_try a = Some a'"
  shows "a' = a
       \<or> (\<exists>sr ar ir. a' = a\<lparr>settings :=
              \<lparr>stitchRate = accept sr (Fin 0.50) (Fin 0) (Fin 10),
               appliqueRate = accept ar (Fin 1.00) (Fin 0) (Fin 50),
               insuranceRate = accept ir (number_value 0.10) (Fin 0) (Fin 1)\<rparr>\<rparr>)"
  using assms
  by (auto simp: loadSettings_try_def validateNumber_accept bind_eq_Some_conv
      split: if_splits option.splits stored.splits)

lemma saveSettingsFromForm_try_Some:
  "saveSettingsFromForm_try f a =
     Some (emit [CloseSettingsModal, ShowSuccess ''Settings saved successfully!'']
       (saveSettings (a\<lparr>settings :=
          \<lparr>stitchRate = accept (js_or (parseFloat_opt (stitch_rate_input f)) (Fin 0.50))
               (Fin 0.50) (Fin 0) (Fin 10),
           appliqueRate = accept (js_or (parseFloat_opt (applique_rate_input f)) (Fin 1.00))
               (Fin 1.00) (Fin 0) (Fin 50),
           insuranceRate =
             accept (js_or (js_div (parseFloat_opt (insurance_rate_input f)) (Fin 100)) (number_value 0.10))
               (number_value 0.10) (Fin 0) (Fin 1)\<rparr>\<rparr>)))"
  by (simp add: saveSettingsFromForm_try_def validateNumber_accept Let_def)

lemma settings_saveSettingsFromForm:
  "settings (saveSettingsFromForm f a) =
     \<lparr>stitchRate = accept (js_or (parseFloat_opt (stitch_rate_input f)) (Fin 0.50))
         (Fin 0.50) (Fin 0) (Fin 10),
      appliqueRate = accept (js_or (parseFloat_opt (applique_rate_input f)) (Fin 1.00))
         (Fin 1.00) (Fin 0) (Fin 50),
      insuranceRate =
        accept (js_or (js_div (parseFloat_opt (insurance_rate_input f)) (Fin 100)) (number_value 0.10))
          (number_value 0.10) (Fin 0) (Fin 1)\<rparr>"
  by (simp add: saveSettingsFromForm_def saveSettingsFromForm_try_Some)

section \<open>The pricing formula\<close>

text \<open>
  Claim C1. For every order and all settings, the breakdown that \<open>performCalculations\<close>
  returns is given by the seven formulas: the stitch cost is the stitches divided by 1000
  times the stitch rate, the applique cost is the appliques times the applique rate, the
  blank cost is the order's, the insurance cost is the blank cost times the insurance
  rate, the design cost is the order's, the cost per item is the sum of these five in
  this order, and the total is the cost per item times the items.
\<close>

theorem performCalculations_formula:
  "stitchCost (performCalculations s d) = js_mul (js_div (stitches d) (Fin 1000)) (stitchRate s)
   \<and> appliqueCost (performCalculations s d) = js_mul (appliques d) (appliqueRate s)
   \<and> blankCostOut (performCalculations s d) = blankCost d
   \<and> insuranceCost (performCalculations s d)
       = js_mul (blankCostOut (performCalculations s d)) (insuranceRate s)
   \<and> designCostOut (performCalculations s d) = designCost d
   \<and> perItemCost (performCalculations s d)
       = js_add (js_add (js_add (js_add (stitchCost (performCalculations s d))
             (appliqueCost (performCalculations s d))) (blankCostOut (performCalculations s d)))
             (insuranceCost (performCalculations s d))) (designCostOut (performCalculations s d))
   \<and> totalCost (performCalculations s d) = js_mul (perItemCost (performCalculations s d)) (items d)"
  by (simp add: performCalculations_def Let_def)

text \<open>
  The formulas at the order of 8000 stitches, 3 items, 2 appliques, a blank of 4.00 and a
  design of 5.00, with the default settings: 4, 0.4, 15.4 and 46.2, each as the double
  that the program computes.
\<close>

theorem performCalculations_formula_witness:
  "stitchCost (performCalculations defaultSettings
       \<lparr>stitches = Fin 8000, items = Fin 3, appliques = Fin 2, blankCost = Fin 4,
        designCost = Fin 5\<rparr>) = Fin 4
   \<and> insuranceCost (performCalculations defaultSettings
       \<lparr>stitches = Fin 8000, items = Fin 3, appliques = Fin 2, blankCost = Fin 4,
        designCost = Fin 5\<rparr>) = Fin (3602879701896397 / 9007199254740992)
   \<and> perItemCost (performCalculations defaultSettings
       \<lparr>stitches = Fin 8000, items = Fin 3, appliques = Fin 2, blankCost = Fin 4,
        designCost = Fin 5\<rparr>) = Fin (8669429282688205 / 562949953421312)
   \<and> totalCost (performCalculations defaultSettings
       \<lparr>stitches = Fin 8000, items = Fin 3, appliques = Fin 2, blankCost = Fin 4,
        designCost = Fin 5\<rparr>) = Fin (3251035981008077 / 70368744177664)"
proof -
  have 1: "number_value (3602879701896397 / 9007199254740992)
      = Fin (3602879701896397 / 9007199254740992)"
    using number_value_below_one [of 1 "3602879701896397 / 9007199254740992" 7205759403792794]
    by simp
  have 2: "number_value (93674872249306317 / 9007199254740992)
      = Fin (5854679515581645 / 562949953421312)"
    using number_value_above_one [of 3 "93674872249306317 / 9007199254740992" 5854679515581645]
    by simp
  have 3: "number_value (8669429282688205 / 562949953421312)
      = Fin (8669429282688205 / 562949953421312)"
    using number_value_above_one [of 3 "8669429282688205 / 562949953421312" 8669429282688205]
    by simp
  have 4: "number_value (26008287848064615 / 562949953421312)
      = Fin (3251035981008077 / 70368744177664)"
    using number_value_above_one [of 5 "26008287848064615 / 562949953421312" 6502071962016154]
    by simp
  show ?thesis
    using performCalculations_formula [of defaultSettings
        "\<lparr>stitches = Fin 8000, items = Fin 3, appliques = Fin 2, blankCost = Fin 4,
          designCost = Fin 5\<rparr>"]
    by (simp add: defaultSettings_def 1 2 3 4)
qed

section \<open>Validation of a number\<close>

text \<open>
  Claim C2. For every raw input, default and bounds, \<open>validateNumber\<close> returns the parsed
  value when that is a number (not NaN) with \<open>min \<le> value \<le> max\<close>, and returns the
  default when parsing gives NaN or the parsed value is below \<open>min\<close> or above \<open>max\<close>.
  Parsing is \<open>parseFloat\<close>, which gives a Number for every string and every Number.
\<close>

theorem validateNumber_spec:
  "(parseFloat x = Some n \<and> n \<noteq> NaN \<and> js_le mn n \<and> js_le n mx
      \<longrightarrow> validateNumber x d mn mx = Some n)
   \<and> (parseFloat x = Some n \<and> (isNaN n \<or> js_lt n mn \<or> js_gt n mx)
      \<longrightarrow> validateNumber x d mn mx = Some d)"
  by (auto simp: validateNumber_def isNaN_def js_gt_def dest: js_le_not_lt)

text \<open>The three cases at the range of the stitch rate: inside, not a number, above.\<close>

theorem validateNumber_spec_witness:
  "validateNumber (JStr ''7.5'') (Fin 0.5) (Fin 0) (Fin 10) = Some (Fin 7.5)
   \<and> validateNumber (JStr ''abc'') (Fin 0.5) (Fin 0) (Fin 10) = Some (Fin 0.5)
   \<and> validateNumber (JStr ''11'') (Fin 0.5) (Fin 0) (Fin 10) = Some (Fin 0.5)"
proof -
  have n: "number_value (15 / 2) = Fin (15 / 2)"
    using number_value_above_one [of 2 "15 / 2" 8444249301319680] by simp
  have p1: "parseFloat_str ''7.5'' = Fin 7.5"
    and p2: "parseFloat_str ''abc'' = NaN"
    and p3: "parseFloat_str ''11'' = Fin 11"
    by (simp_all add: parse_defs n)
  have "validateNumber (JStr ''7.5'') (Fin 0.5) (Fin 0) (Fin 10) = Some (Fin 7.5)"
    using validateNumber_spec [of "JStr ''7.5''" "Fin 7.5" "Fin 0" "Fin 10" "Fin 0.5"]
    by (simp add: p1 js_le_Fin_Fin)
  moreover have "validateNumber (JStr ''abc'') (Fin 0.5) (Fin 0) (Fin 10) = Some (Fin 0.5)"
    using validateNumber_spec [of "JStr ''abc''" NaN "Fin 0" "Fin 10" "Fin 0.5"]
    by (simp add: p2 isNaN_def)
  moreover have "validateNumber (JStr ''11'') (Fin 0.5) (Fin 0) (Fin 10) = Some (Fin 0.5)"
    using validateNumber_spec [of "JStr ''11''" "Fin 11" "Fin 0" "Fin 10" "Fin 0.5"]
    by (simp add: p3 isNaN_def js_gt_def)
  ultimately show ?thesis by simp
qed

subsection \<open>A literal followed by other characters\<close>

lemma dropWhile_stop: "\<not> P c \<Longrightarrow> dropWhile P (p @ c # t) = dropWhile P p @ c # t"
  by (induction p) auto

lemma takeWhile_stop: "\<not> P c \<Longrightarrow> takeWhile P (p @ c # t) = takeWhile P p"
  by (induction p) auto

lemma exponentPart_stop:
  assumes "stopChar c"
  shows "exponentPart (r @ c # t) = exponentPart r"
proof -
  from assms have nd: "\<not> isDigit c" and ne: "c \<noteq> CHR ''e''" "c \<noteq> CHR ''E''"
    and ns: "c \<noteq> CHR ''-''" "c \<noteq> CHR ''+''"
    by (auto simp: stopChar_def)
  show ?thesis
  proof (cases r)
    case Nil
    with ne show ?thesis by (simp add: exponentPart_def)
  next
    case (Cons e r1)
    show ?thesis
    proof (cases r1)
      case Nil
      with Cons nd ns show ?thesis by (simp add: exponentPart_def)
    next
      case (Cons s r2)
      with \<open>r = e # r1\<close> nd show ?thesis
        by (simp add: exponentPart_def takeWhile_stop)
    qed
  qed
qed

lemma take8_stop:
  assumes "c \<notin> set ''Infinity''"
  shows "(take 8 (r @ c # t) = ''Infinity'') = (take 8 r = ''Infinity'')"
proof (cases "8 \<le> length r")
  case True
  then show ?thesis by simp
next
  case False
  then have l: "length r < 8" by simp
  have a: "take 8 r \<noteq> ''Infinity''"
  proof
    assume "take 8 r = ''Infinity''"
    then have "length (take 8 r) = 8" by simp
    with l show False by simp
  qed
  have b: "take 8 (r @ c # t) \<noteq> ''Infinity''"
  proof
    assume h: "take 8 (r @ c # t) = ''Infinity''"
    obtain k where k: "8 - length r = Suc k"
      using l by (cases "8 - length r") auto
    have "c \<in> set (take 8 (r @ c # t))" by (simp add: k)
    with h assms show False by simp
  qed
  from a b show ?thesis by simp
qed

lemma unsignedLiteral_stop:
  assumes "stopChar c"
  shows "unsignedLiteral (r @ c # t) = unsignedLiteral r"
proof -
  from assms have nd: "\<not> isDigit c" and np: "c \<noteq> CHR ''.''"
    and ni: "c \<notin> set ''Infinity''"
    by (auto simp: stopChar_def)
  have e0: "exponentPart (c # t) = 1"
    using exponentPart_stop [OF assms, of "[]" t] by (simp add: exponentPart_def)
  show ?thesis
  proof (cases "dropWhile isDigit r")
    case Nil
    with nd np e0 show ?thesis
      by (simp add: unsignedLiteral_def take8_stop [OF ni] dropWhile_stop takeWhile_stop Let_def
          del: dropWhile_eq_Nil_conv take_append)
  next
    case (Cons x r2)
    with nd show ?thesis
      using exponentPart_stop [OF assms, of "x # r2" t]
        exponentPart_stop [OF assms, of "dropWhile isDigit r2" t]
      by (simp add: unsignedLiteral_def take8_stop [OF ni] dropWhile_stop takeWhile_stop Let_def
          del: dropWhile_eq_Nil_conv take_append)
  qed
qed

lemma parseFloat_str_stop:
  assumes "stopChar c"
  shows "parseFloat_str (p @ c # t) = parseFloat_str p"
proof -
  from assms have nw: "\<not> isWhiteSpace c" and ns: "c \<noteq> CHR ''-''" "c \<noteq> CHR ''+''"
    by (auto simp: stopChar_def)
  show ?thesis
  proof (cases "dropWhile isWhiteSpace p")
    case Nil
    have "unsignedLiteral [] = NaN" by (simp add: unsignedLiteral_def)
    with Nil nw ns show ?thesis
      using unsignedLiteral_stop [OF assms, of "[]" t]
      by (simp add: parseFloat_str_def dropWhile_stop del: dropWhile_eq_Nil_conv)
  next
    case (Cons x r)
    with nw show ?thesis
      using unsignedLiteral_stop [OF assms, of r t] unsignedLiteral_stop [OF assms, of "x # r" t]
      by (simp add: parseFloat_str_def dropWhile_stop del: dropWhile_eq_Nil_conv)
  qed
qed

text \<open>
  A comma is such a character: in an array printed as text, what follows the first comma
  does not count.
\<close>

lemma parseFloat_str_comma: "parseFloat_str (s @ CHR '','' # t) = parseFloat_str s"
  by (rule parseFloat_str_stop) (simp add: stopChar_def isDigit_def isWhiteSpace_def)

text \<open>
  Claim C10. Some strings that are not numeric do not get the default: a string that
  starts with a prefix parsing to a finite number inside the range, followed by a
  character that no numeric literal continues with and then anything, is accepted, and
  the value of the prefix is returned; \<open>5abc\<close> in the range from 0 to 10 gives 5.
\<close>

theorem validateNumber_accepts_prefix:
  assumes "parseFloat_str p = Fin x" and "stopChar c"
    and "js_le mn (Fin x)" and "js_le (Fin x) mx"
  shows "validateNumber (JStr (p @ c # t)) d mn mx = Some (Fin x)"
  using assms
  by (auto simp: validateNumber_def isNaN_def js_gt_def parseFloat_str_stop
      dest: js_le_not_lt)

theorem validateNumber_accepts_prefix_witness:
  "validateNumber (JStr ''5abc'') (Fin 0.5) (Fin 0) (Fin 10) = Some (Fin 5)
   \<and> validateNumber (JStr ''5abc'') (Fin 0.5) (Fin 0) (Fin 10) \<noteq> Some (Fin 0.5)"
proof -
  have p: "parseFloat_str ''5'' = Fin 5" by (simp add: parse_defs)
  have s: "stopChar CHR ''a''" by (simp add: stopChar_def isDigit_def isWhiteSpace_def)
  have l: "js_le (Fin 0) (Fin 5)" "js_le (Fin 5) (Fin 10)" by (simp_all add: js_le_def)
  show ?thesis
    using validateNumber_accepts_prefix [OF p s l, of "''bc''" "Fin 0.5"] by simp
qed

section \<open>The range invariant of the settings\<close>

lemma settings_ok_default: "settings_ok defaultSettings"
  by (simp add: settings_ok_def defaultSettings_def js_le_Fin_Fin)

lemma settings_ok_accepted:
  assumes "0 \<le> d1" "d1 \<le> 10" "0 \<le> d2" "d2 \<le> 50" "0 \<le> d3" "d3 \<le> 1"
  shows "settings_ok \<lparr>stitchRate = accept x (Fin d1) (Fin 0) (Fin 10),
                appliqueRate = accept y (Fin d2) (Fin 0) (Fin 50),
                insuranceRate = accept z (Fin d3) (Fin 0) (Fin 1)\<rparr>"
  using accept_in_range [OF assms(1,2), of x] accept_in_range [OF assms(3,4), of y]
    accept_in_range [OF assms(5,6), of z]
  by (simp add: settings_ok_def)

lemma settings_ok_loadSettings:
  assumes "settings_ok (settings a)"
  shows "settings_ok (settings (loadSettings a))"
proof (cases "loadSettings_try a")
  case None
  with assms show ?thesis by (simp add: loadSettings_def)
next
  case (Some a')
  from loadSettings_try_Some [OF Some] assms have "settings_ok (settings a')"
    by (auto simp: settings_ok_accepted)
  with Some show ?thesis by (simp add: loadSettings_def)
qed

lemma settings_ok_saveSettingsFromForm: "settings_ok (settings (saveSettingsFromForm f a))"
  by (simp add: settings_saveSettingsFromForm settings_ok_accepted)

lemma settings_ok_new: "settings_ok (settings (new_EmbroideryCalculator st))"
  by (simp add: new_EmbroideryCalculator_def settings_ok_loadSettings settings_ok_default)

lemma settings_ok_step: "settings_ok (settings a) \<Longrightarrow> settings_ok (settings (step a x))"
  by (cases x) (simp_all add: settings_ok_loadSettings settings_ok_saveSettingsFromForm)

lemma settings_ok_foldl:
  "settings_ok (settings a) \<Longrightarrow> settings_ok (settings (foldl step a xs))"
  by (induction xs arbitrary: a) (simp_all add: settings_ok_step)

text \<open>
  Claim C6. The settings in memory always lie in their ranges, 0 to 10 for the stitch
  rate, 0 to 50 for the applique rate and 0 to 1 for the insurance rate: the defaults do,
  and so do the settings of a calculator constructed over any storage and taken through
  any sequence of form submissions with any raw values, loads and changes of the storage.
\<close>

theorem settings_invariant:
  "settings_ok defaultSettings
   \<and> settings_ok (settings (foldl step (new_EmbroideryCalculator st) acts))"
  by (simp add: settings_ok_default settings_ok_foldl settings_ok_new)

text \<open>
  A calculator over a malformed entry, after a form submission with a rate out of range,
  a change of the storage and another load.
\<close>

theorem settings_invariant_witness:
  "settings_ok (settings (foldl step
      (new_EmbroideryCalculator \<lparr>item = Some Malformed, getItem_throws = False, setItem_throws = True\<rparr>)
      [SubmitSettingsForm \<lparr>stitch_rate_input = Some ''99'', applique_rate_input = None,
          insurance_rate_input = Some ''-3''\<rparr>,
       StorageChanged \<lparr>item = Some (Json (JArr [])), getItem_throws = False, setItem_throws = False\<rparr>,
       LoadSettings]))"
  using settings_invariant [of
      "\<lparr>item = Some Malformed, getItem_throws = False, setItem_throws = True\<rparr>"
      "[SubmitSettingsForm \<lparr>stitch_rate_input = Some ''99'', applique_rate_input = None,
          insurance_rate_input = Some ''-3''\<rparr>,
        StorageChanged \<lparr>item = Some (Json (JArr [])), getItem_throws = False, setItem_throws = False\<rparr>,
        LoadSettings]"]
  by simp

section \<open>Loading the settings\<close>

lemma getProp_None: "getProp v k = None \<longleftrightarrow> v = JNull \<or> v = JUndefined"
  by (cases v) simp_all

lemma parseFloat_None: "parseFloat raw = None \<longleftrightarrow> toString_throws raw"
  by (simp add: parseFloat_def)

lemma parseFloat_Some: "parseFloat raw = Some n \<longleftrightarrow> \<not> toString_throws raw \<and> n = parseFloat_text raw"
  by (auto simp: parseFloat_def)

lemma flags_saveSettings [simp]:
  "getItem_throws (storage (saveSettings a)) = getItem_throws (storage a)"
  "setItem_throws (storage (saveSettings a)) = setItem_throws (storage a)"
  by (simp_all add: saveSettings_def Let_def)

lemma item_saveSettings:
  "item (storage (saveSettings a)) =
     (if setItem_throws (storage a) then item (storage a) else Some (JSON_stringify (settings a)))"
  by (simp add: saveSettings_def Let_def)

lemma events_saveSettings_mem:
  "SetItem (JSON_stringify (settings a)) \<in> set (events (saveSettings a))"
  by (simp add: saveSettings_def Let_def)

lemma storage_catch [simp]:
  "getItem_throws (storage (loadSettings_catch a)) = getItem_throws (storage a)"
  "setItem_throws (storage (loadSettings_catch a)) = setItem_throws (storage a)"
  "item (storage (loadSettings_catch a)) =
     (if setItem_throws (storage a) then item (storage a) else Some (JSON_stringify (settings a)))"
  by (simp_all add: loadSettings_catch_def item_saveSettings)

lemma events_catch_mem:
  "SetItem (JSON_stringify (settings a)) \<in> set (events (loadSettings_catch a))"
  using events_saveSettings_mem [of "emit [Console_warn] a"]
  by (simp add: loadSettings_catch_def)

text \<open>The \<open>try\<close> block on a parsed value, by whether the value can be read.\<close>

lemma loadSettings_try_parsed:
  assumes "\<not> getItem_throws (storage a)" "item (storage a) = Some (Json v)"
  shows "loadSettings_try a =
     (if record_throws v then None
      else Some (a\<lparr>settings :=
        \<lparr>stitchRate = accept (parseFloat_text (the (getProp v ''stitchRate'')))
             (Fin 0.50) (Fin 0) (Fin 10),
         appliqueRate = accept (parseFloat_text (the (getProp v ''appliqueRate'')))
             (Fin 1.00) (Fin 0) (Fin 50),
         insuranceRate = accept (parseFloat_text (the (getProp v ''insuranceRate'')))
             (number_value 0.10) (Fin 0) (Fin 1)\<rparr>\<rparr>))"
  using assms
  by (auto simp: loadSettings_try_def record_throws_def field_throws_def validateNumber_accept
      parseFloat_def split: option.splits Option.bind_splits)

lemma loadSettings_try_None: "loadSettings_try a = None \<longleftrightarrow> load_throws (storage a)"
proof (cases "getItem_throws (storage a)")
  case True
  then show ?thesis by (simp add: loadSettings_try_def load_throws_def)
next
  case False
  show ?thesis
  proof (cases "item (storage a)")
    case None
    with False show ?thesis by (simp add: loadSettings_try_def load_throws_def)
  next
    case (Some x)
    show ?thesis
    proof (cases x)
      case (Json v)
      with Some False show ?thesis
        by (simp add: loadSettings_try_parsed load_throws_def)
    qed (use Some False in \<open>simp_all add: loadSettings_try_def load_throws_def\<close>)
  qed
qed

lemma loadSettings_throws:
  "load_throws (storage a) \<Longrightarrow> loadSettings a = loadSettings_catch a"
  using loadSettings_try_None [of a] by (simp add: loadSettings_def)

lemma loadSettings_absent:
  "\<not> getItem_throws (storage a) \<Longrightarrow> item (storage a) = None \<or> item (storage a) = Some EmptyString
    \<Longrightarrow> loadSettings a = a"
  by (auto simp: loadSettings_def loadSettings_try_def)

lemma accept_corrupt:
  "corrupt_field raw lo hi \<Longrightarrow> accept (parseFloat_text raw) d (Fin lo) (Fin hi) = d"
  by (cases "parseFloat_text raw")
    (auto simp: corrupt_field_def parseFloat_def accept_Fin_bounds split: if_splits)

lemma accept_valid:
  "valid_field raw lo hi \<Longrightarrow> JNum (accept (parseFloat_text raw) d (Fin lo) (Fin hi)) = raw"
  by (auto simp: valid_field_def accept_Fin_bounds split: jsvalue.splits jsnum.splits)



lemma loadSettings_wrong_shape:
  assumes "\<not> load_throws (storage a)" "item (storage a) = Some (Json v)" "wrong_shape v"
  shows "loadSettings a = a\<lparr>settings := defaultSettings\<rparr>"
proof -
  from assms(1,2) have nt: "\<not> record_throws v" and r: "\<not> getItem_throws (storage a)"
    by (auto simp: load_throws_def)
  from nt obtain sr ar ir where g: "getProp v ''stitchRate'' = Some sr"
    "getProp v ''appliqueRate'' = Some ar" "getProp v ''insuranceRate'' = Some ir"
    by (auto simp: record_throws_def field_throws_def split: option.splits)
  with assms(3) nt have "corrupt_field sr 0 10" "corrupt_field ar 0 50" "corrupt_field ir 0 1"
    by (simp_all add: wrong_shape_def unusable_def)
  then show ?thesis
    using nt by (simp add: loadSettings_def loadSettings_try_parsed [OF r assms(2)] g
        accept_corrupt defaultSettings_def)
qed

text \<open>
  Claim C3, as amended. When the settings entry is absent or empty, or is present but
  \<open>JSON.parse\<close> throws on it or gives a value of the wrong shape, the constructor ends
  with the default settings. It calls \<open>setItem\<close> with the defaults exactly when reading
  throws (the storage cannot be read, the text is malformed, or the parsed value is
  \<open>null\<close> or has a field that cannot be converted), and then the entry holds the
  defaults unless writing throws too; an absent or empty entry and a parsed value of the
  wrong shape that can be read leave the storage as it was.
\<close>

theorem load_without_settings:
  assumes "item st = None \<or> item st = Some EmptyString \<or> item st = Some Malformed
           \<or> (\<exists>v. item st = Some (Json v) \<and> wrong_shape v)"
  shows "settings (new_EmbroideryCalculator st) = defaultSettings
       \<and> saved_defaults (new_EmbroideryCalculator st) = load_throws st
       \<and> item (storage (new_EmbroideryCalculator st)) =
           (if load_throws st \<and> \<not> setItem_throws st then Some (JSON_stringify defaultSettings)
            else item st)"
proof (cases "load_throws st")
  case True
  then show ?thesis
    using events_catch_mem [of "\<lparr>settings = defaultSettings, storage = st, events = []\<rparr>"]
    by (simp add: new_EmbroideryCalculator_def loadSettings_throws saved_defaults_def)
next
  case False
  then have r: "\<not> getItem_throws st" by (simp add: load_throws_def)
  let ?a = "\<lparr>settings = defaultSettings, storage = st, events = []\<rparr>"
  from assms False consider "item st = None \<or> item st = Some EmptyString"
    | v where "item st = Some (Json v)" "wrong_shape v"
    by (auto simp: load_throws_def)
  then show ?thesis
  proof cases
    case 1
    then have "loadSettings ?a = ?a" using r by (intro loadSettings_absent) simp_all
    with False show ?thesis
      by (simp add: new_EmbroideryCalculator_def saved_defaults_def)
  next
    case 2
    then have "loadSettings ?a = ?a\<lparr>settings := defaultSettings\<rparr>"
      using False by (intro loadSettings_wrong_shape) simp_all
    with False show ?thesis
      by (simp add: new_EmbroideryCalculator_def saved_defaults_def)
  qed
qed

text \<open>
  At an absent entry, an empty one, a malformed one, and one that parses to an array.
\<close>

theorem load_without_settings_witness:
  "settings (new_EmbroideryCalculator \<lparr>item = None, getItem_throws = False, setItem_throws = False\<rparr>)
     = defaultSettings
   \<and> \<not> saved_defaults
        (new_EmbroideryCalculator \<lparr>item = None, getItem_throws = False, setItem_throws = False\<rparr>)
   \<and> item (storage (new_EmbroideryCalculator
        \<lparr>item = Some EmptyString, getItem_throws = False, setItem_throws = False\<rparr>))
       = Some EmptyString
   \<and> settings (new_EmbroideryCalculator
        \<lparr>item = Some Malformed, getItem_throws = False, setItem_throws = False\<rparr>) = defaultSettings
   \<and> saved_defaults
        (new_EmbroideryCalculator
           \<lparr>item = Some Malformed, getItem_throws = False, setItem_throws = False\<rparr>)
   \<and> item (storage (new_EmbroideryCalculator
        \<lparr>item = Some Malformed, getItem_throws = False, setItem_throws = False\<rparr>))
       = Some (JSON_stringify defaultSettings)
   \<and> settings (new_EmbroideryCalculator
        \<lparr>item = Some (Json (JArr [JNum (Fin 3)])), getItem_throws = False, setItem_throws = False\<rparr>)
       = defaultSettings
   \<and> \<not> saved_defaults
        (new_EmbroideryCalculator
        \<lparr>item = Some (Json (JArr [JNum (Fin 3)])), getItem_throws = False, setItem_throws = False\<rparr>)"
proof -
  have w: "wrong_shape (JArr [JNum (Fin 3)])" "\<not> record_throws (JArr [JNum (Fin 3)])"
    by (simp_all add: wrong_shape_def unusable_def corrupt_field_def record_throws_def
        field_throws_def)
  show ?thesis
    using load_without_settings [of "\<lparr>item = None, getItem_throws = False, setItem_throws = False\<rparr>"]
      load_without_settings [of "\<lparr>item = Some EmptyString, getItem_throws = False, setItem_throws = False\<rparr>"]
      load_without_settings [of "\<lparr>item = Some Malformed, getItem_throws = False, setItem_throws = False\<rparr>"]
      load_without_settings [of "\<lparr>item = Some (Json (JArr [JNum (Fin 3)])), getItem_throws = False, setItem_throws = False\<rparr>"]
      w
    by (simp add: load_throws_def)
qed

text \<open>
  Claim C3 as stated fails: with no entry in the storage, and with an entry that parses
  to the empty object, the constructor never calls \<open>setItem\<close>, and the storage stays
  as it was.
\<close>

theorem load_absent_counterexample:
  "item \<lparr>item = None, getItem_throws = False, setItem_throws = False\<rparr> = None
   \<and> \<not> saved_defaults
        (new_EmbroideryCalculator \<lparr>item = None, getItem_throws = False, setItem_throws = False\<rparr>)
   \<and> storage (new_EmbroideryCalculator \<lparr>item = None, getItem_throws = False, setItem_throws = False\<rparr>)
       = \<lparr>item = None, getItem_throws = False, setItem_throws = False\<rparr>
   \<and> wrong_shape (JObj [])
   \<and> \<not> saved_defaults
        (new_EmbroideryCalculator
           \<lparr>item = Some (Json (JObj [])), getItem_throws = False, setItem_throws = False\<rparr>)"
  by (simp add: new_EmbroideryCalculator_def loadSettings_def loadSettings_try_def
      saved_defaults_def wrong_shape_def unusable_def corrupt_field_def ownProperty_def
      validateNumber_accept)

subsection \<open>Field by field\<close>

lemma loadSettings_object:
  assumes "\<not> getItem_throws (storage a)" "item (storage a) = Some (Json (JObj kvs))"
    and "\<not> toString_throws (ownProperty kvs ''stitchRate'')"
    and "\<not> toString_throws (ownProperty kvs ''appliqueRate'')"
    and "\<not> toString_throws (ownProperty kvs ''insuranceRate'')"
  shows "settings (loadSettings a) =
     \<lparr>stitchRate = accept (parseFloat_text (ownProperty kvs ''stitchRate''))
         (Fin 0.50) (Fin 0) (Fin 10),
      appliqueRate = accept (parseFloat_text (ownProperty kvs ''appliqueRate''))
         (Fin 1.00) (Fin 0) (Fin 50),
      insuranceRate = accept (parseFloat_text (ownProperty kvs ''insuranceRate''))
         (number_value 0.10) (Fin 0) (Fin 1)\<rparr>"
  using assms(3-5)
  by (simp add: loadSettings_def loadSettings_try_parsed [OF assms(1,2)] record_throws_def
      field_throws_def)




section \<open>Saving and loading again\<close>

lemma JSON_stringify_ok:
  assumes "settings_ok s"
  shows "JSON_stringify s =
     Json (JObj [(''stitchRate'', JNum (stitchRate s)), (''appliqueRate'', JNum (appliqueRate s)),
                 (''insuranceRate'', JNum (insuranceRate s))])"
    and "valid_field (JNum (stitchRate s)) 0 10" and "valid_field (JNum (appliqueRate s)) 0 50"
    and "valid_field (JNum (insuranceRate s)) 0 1"
proof -
  from assms obtain x y z where "stitchRate s = Fin x" "0 \<le> x" "x \<le> 10"
    "appliqueRate s = Fin y" "0 \<le> y" "y \<le> 50" "insuranceRate s = Fin z" "0 \<le> z" "z \<le> 1"
    unfolding settings_ok_def
    using in_range_Fin [of 0 "stitchRate s" 10] in_range_Fin [of 0 "appliqueRate s" 50]
      in_range_Fin [of 0 "insuranceRate s" 1]
    by auto
  then show "JSON_stringify s =
     Json (JObj [(''stitchRate'', JNum (stitchRate s)), (''appliqueRate'', JNum (appliqueRate s)),
                 (''insuranceRate'', JNum (insuranceRate s))])"
    and "valid_field (JNum (stitchRate s)) 0 10" and "valid_field (JNum (appliqueRate s)) 0 50"
    and "valid_field (JNum (insuranceRate s)) 0 1"
    by (simp_all add: JSON_stringify_def json_number_def valid_field_def)
qed

lemma load_after_save:
  assumes ok: "settings_ok s" and r: "\<not> getItem_throws (storage b)"
    and i: "item (storage b) = Some (JSON_stringify s)"
  shows "settings (loadSettings b) = s"
proof -
  note j = JSON_stringify_ok [OF ok]
  let ?kvs = "[(''stitchRate'', JNum (stitchRate s)), (''appliqueRate'', JNum (appliqueRate s)),
      (''insuranceRate'', JNum (insuranceRate s))]"
  from i have i': "item (storage b) = Some (Json (JObj ?kvs))"
    by (simp add: j(1))
  have p: "ownProperty ?kvs ''stitchRate'' = JNum (stitchRate s)"
    "ownProperty ?kvs ''appliqueRate'' = JNum (appliqueRate s)"
    "ownProperty ?kvs ''insuranceRate'' = JNum (insuranceRate s)"
    by (simp_all add: ownProperty_def)
  have "settings (loadSettings b) =
      \<lparr>stitchRate = stitchRate s, appliqueRate = appliqueRate s, insuranceRate = insuranceRate s\<rparr>"
    using accept_valid [OF j(2), of "Fin 0.50"] accept_valid [OF j(3), of "Fin 1.00"]
      accept_valid [OF j(4), of "number_value 0.10"]
    by (subst loadSettings_object [OF r i']) (simp_all add: p)
  then show ?thesis by simp
qed

text \<open>Where the \<open>try\<close> block does not throw, it leaves the storage alone.\<close>

lemma storage_loadSettings_try:
  "loadSettings_try a = Some a' \<Longrightarrow> storage a' = storage a"
  using loadSettings_try_Some [of a a'] by auto

lemma flags_loadSettings [simp]:
  "getItem_throws (storage (loadSettings a)) = getItem_throws (storage a)"
  "setItem_throws (storage (loadSettings a)) = setItem_throws (storage a)"
  by (cases "loadSettings_try a"; simp add: loadSettings_def storage_loadSettings_try)+

lemma item_loadSettings_unwritable:
  "setItem_throws (storage a) \<Longrightarrow> item (storage (loadSettings a)) = item (storage a)"
  by (cases "loadSettings_try a") (simp_all add: loadSettings_def storage_loadSettings_try)

lemma loadSettings_unreadable:
  "getItem_throws (storage a) \<Longrightarrow> settings (loadSettings a) = settings a"
  by (simp add: loadSettings_def loadSettings_try_def)

text \<open>The \<open>try\<close> block over the same storage, started from other settings.\<close>

lemma loadSettings_try_storage:
  assumes "storage b = storage a" "loadSettings_try a = Some a'"
  shows "loadSettings_try b = Some b \<and> a' = a
       \<or> loadSettings_try b = Some (b\<lparr>settings := settings a'\<rparr>)"
proof (cases "item (storage a)")
  case None
  with assms show ?thesis by (simp add: loadSettings_try_def split: if_splits)
next
  case (Some x)
  from assms(2) have r: "\<not> getItem_throws (storage a)"
    by (auto simp: loadSettings_try_def)
  show ?thesis
  proof (cases x)
    case EmptyString
    with Some assms show ?thesis by (simp add: loadSettings_try_def split: if_splits)
  next
    case Malformed
    with Some assms show ?thesis by (simp add: loadSettings_try_def split: if_splits)
  next
    case (Json v)
    with Some r assms show ?thesis
      using loadSettings_try_parsed [of a v] loadSettings_try_parsed [of b v]
      by (auto split: if_splits)
  qed
qed

lemma loadSettings_again:
  assumes "storage b = storage a" "settings b = settings (loadSettings a)"
  shows "settings (loadSettings b) = settings b"
proof (cases "loadSettings_try a")
  case None
  then have "load_throws (storage b)" by (simp add: loadSettings_try_None assms(1))
  then show ?thesis by (simp add: loadSettings_throws)
next
  case (Some a')
  with assms(2) have "settings b = settings a'" by (simp add: loadSettings_def)
  with loadSettings_try_storage [OF assms(1) Some] show ?thesis
    by (auto simp: loadSettings_def)
qed

lemma new_unreadable: "getItem_throws st \<Longrightarrow> settings (new_EmbroideryCalculator st) = defaultSettings"
  by (simp add: new_EmbroideryCalculator_def loadSettings_unreadable)

lemma storage_new_unwritable:
  assumes "setItem_throws st"
  shows "storage (new_EmbroideryCalculator st) = st"
proof -
  let ?d = "\<lparr>settings = defaultSettings, storage = st, events = []\<rparr>"
  have "item (storage (loadSettings ?d)) = item st"
    using assms item_loadSettings_unwritable [of ?d] by simp
  moreover have "getItem_throws (storage (loadSettings ?d)) = getItem_throws st"
    "setItem_throws (storage (loadSettings ?d)) = setItem_throws st"
    by simp_all
  ultimately show ?thesis
    by (simp add: new_EmbroideryCalculator_def)
qed

lemma storage_saveSettings_unwritable:
  "setItem_throws (storage a) \<Longrightarrow> storage (saveSettings a) = storage a"
  by (simp add: saveSettings_def Let_def)

text \<open>
  Claim C5. For every storage, saving the settings that the constructor has just loaded
  leaves a storage from which a load gives the same settings again, both for a new
  calculator and for the same one loading once more.
\<close>

theorem load_save_roundtrip:
  "settings (new_EmbroideryCalculator (storage (saveSettings (new_EmbroideryCalculator st))))
     = settings (new_EmbroideryCalculator st)
   \<and> settings (loadSettings (saveSettings (new_EmbroideryCalculator st)))
     = settings (new_EmbroideryCalculator st)"
proof -
  let ?a = "new_EmbroideryCalculator st"
  let ?st' = "storage (saveSettings ?a)"
  have fl: "getItem_throws (storage ?a) = getItem_throws st"
    "setItem_throws (storage ?a) = setItem_throws st"
    by (simp_all add: new_EmbroideryCalculator_def)
  have ok: "settings_ok (settings ?a)" by (rule settings_ok_new)
  consider (unreadable) "getItem_throws st"
    | (unwritable) "\<not> getItem_throws st" "setItem_throws st"
    | (working) "\<not> getItem_throws st" "\<not> setItem_throws st"
    by blast
  then show ?thesis
  proof cases
    case unreadable
    then have "getItem_throws ?st'" by (simp add: fl)
    then have "settings (new_EmbroideryCalculator ?st') = defaultSettings"
      by (rule new_unreadable)
    moreover have "settings (loadSettings (saveSettings ?a)) = settings ?a"
      using unreadable by (simp add: loadSettings_unreadable fl)
    ultimately show ?thesis using unreadable by (simp add: new_unreadable)
  next
    case unwritable
    then have s: "storage ?a = st" by (simp add: storage_new_unwritable)
    with unwritable have s': "?st' = st" by (simp add: storage_saveSettings_unwritable)
    let ?d = "\<lparr>settings = defaultSettings, storage = st, events = []\<rparr>"
    have "storage (saveSettings ?a) = storage ?d" using s' by simp
    moreover have "settings (saveSettings ?a) = settings (loadSettings ?d)"
      by (simp add: new_EmbroideryCalculator_def)
    ultimately have "settings (loadSettings (saveSettings ?a)) = settings (saveSettings ?a)"
      by (rule loadSettings_again)
    with s' show ?thesis by simp
  next
    case working
    then have i: "item ?st' = Some (JSON_stringify (settings ?a))"
      and r: "\<not> getItem_throws ?st'"
      by (simp_all add: item_saveSettings fl)
    have "settings (new_EmbroideryCalculator ?st') = settings ?a"
      unfolding new_EmbroideryCalculator_def [of ?st']
      using i r by (intro load_after_save [OF ok]) (simp_all del: flags_saveSettings)
    moreover have "settings (loadSettings (saveSettings ?a)) = settings ?a"
      using i r by (intro load_after_save [OF ok])
    ultimately show ?thesis by simp
  qed
qed

text \<open>
  At a stored record with a stitch rate out of range, an applique rate \<open>5abc\<close> and no
  insurance rate.
\<close>

theorem load_save_roundtrip_witness:
  "settings (new_EmbroideryCalculator (storage (saveSettings (new_EmbroideryCalculator
      \<lparr>item = Some (Json (JObj [(''stitchRate'', JNum (Fin 11)), (''appliqueRate'', JStr ''5abc'')])),
       getItem_throws = False, setItem_throws = False\<rparr>))))
   = \<lparr>stitchRate = Fin 0.5, appliqueRate = Fin 5, insuranceRate = number_value 0.10\<rparr>"
proof -
  have "settings (new_EmbroideryCalculator
      \<lparr>item = Some (Json (JObj [(''stitchRate'', JNum (Fin 11)), (''appliqueRate'', JStr ''5abc'')])),
       getItem_throws = False, setItem_throws = False\<rparr>)
    = \<lparr>stitchRate = Fin 0.5, appliqueRate = Fin 5, insuranceRate = number_value 0.10\<rparr>"
    by (simp add: new_EmbroideryCalculator_def loadSettings_def loadSettings_try_def
        ownProperty_def validateNumber_accept accept_Fin_bounds parse_defs)
  with load_save_roundtrip [of "\<lparr>item = Some (Json (JObj [(''stitchRate'', JNum (Fin 11)),
       (''appliqueRate'', JStr ''5abc'')])), getItem_throws = False, setItem_throws = False\<rparr>"]
  show ?thesis by simp
qed

section \<open>The settings form\<close>

text \<open>
  Claim C7 asks that a raw value gives the same field whether it comes from the storage
  or from the settings form. Both paths call \<open>validateNumber\<close> with the same default
  and bounds, which start at 0; but the form path first replaces a parsed zero by the
  default with \<open>||\<close>. At the raw value \<open>0\<close> for the stitch rate the storage gives 0
  and the form gives 0.50.
\<close>

theorem zero_rate_form_and_load:
  "stitchRate (settings (loadSettings
      \<lparr>settings = defaultSettings,
       storage = \<lparr>item = Some (Json (JObj [(''stitchRate'', JStr ''0''),
          (''appliqueRate'', JStr ''1''), (''insuranceRate'', JStr ''0.1'')])),
          getItem_throws = False, setItem_throws = False\<rparr>,
       events = []\<rparr>)) = Fin 0
   \<and> stitchRate (settings (saveSettingsFromForm
      \<lparr>stitch_rate_input = Some ''0'', applique_rate_input = Some ''1'',
       insurance_rate_input = Some ''10''\<rparr>
      \<lparr>settings = defaultSettings,
       storage = \<lparr>item = None, getItem_throws = False, setItem_throws = False\<rparr>,
       events = []\<rparr>)) = Fin 0.50"
  by (simp add: loadSettings_def loadSettings_try_def settings_saveSettingsFromForm
      ownProperty_def parseFloat_opt_def validateNumber_accept accept_Fin_bounds js_or_def
      truthy_def parse_defs)

text \<open>
  Zero is the only parsed number at which the \<open>||\<close> step changes what
  \<open>validateNumber\<close> returns: any other number, NaN and the infinities included, gives
  the same field with the step and without it.
\<close>

lemma accept_or_default:
  "p \<noteq> Fin 0 \<Longrightarrow> lo \<le> dx \<Longrightarrow> dx \<le> hi
   \<Longrightarrow> accept (js_or p (Fin dx)) (Fin dx) (Fin lo) (Fin hi) = accept p (Fin dx) (Fin lo) (Fin hi)"
  by (cases p) (simp_all add: js_or_def truthy_def accept_Fin_bounds)

text \<open>
  For the insurance rate the zero can also come from the division by 100: the form value
  \<open>1e-322\<close> is read as the double \<open>20 / 2 ^ 1074\<close>, a hundredth of it rounds to 0,
  and the insurance rate becomes the default.
\<close>

lemma parseFloat_str_tiny: "parseFloat_str ''1e-322'' = Fin (20 / 2 ^ 1074)"
  using number_value_subnormal [of "1 / 10 ^ 322" 20] by (simp add: parse_defs)

lemma js_div_underflow: "js_div (Fin (20 / 2 ^ 1074)) (Fin 100) = Fin 0"
  using number_value_subnormal [of "20 / 2 ^ 1074 / 100" 0] by simp

lemma insurance_underflow:
  "insuranceRate (settings (saveSettingsFromForm (f\<lparr>insurance_rate_input := Some ''1e-322''\<rparr>) a))
     = number_value 0.10"
  using parseFloat_str_tiny js_div_underflow
  by (simp add: settings_saveSettingsFromForm parseFloat_opt_def js_or_def truthy_def
      accept_Fin_bounds)

text \<open>
  Claim C8. When the settings form is submitted with the insurance rate \<open>0\<close>, the
  division by 100 gives zero, \<open>||\<close> replaces it by 0.10, and the insurance rate of the
  new settings is the default 0.10, not 0, although \<open>validateNumber\<close> would accept 0.
\<close>

theorem insurance_zero_is_default:
  "js_or (js_div (parseFloat_opt (Some ''0'')) (Fin 100)) (number_value 0.10) = number_value 0.10
   \<and> insuranceRate (settings (saveSettingsFromForm (f\<lparr>insurance_rate_input := Some ''0''\<rparr>) a))
       = number_value 0.10
   \<and> validateNumber (JNum (Fin 0)) (number_value 0.10) (Fin 0) (Fin 1) = Some (Fin 0)"
proof -
  have p: "parseFloat_str ''0'' = Fin 0" by (simp add: parse_defs)
  show ?thesis
    by (simp add: settings_saveSettingsFromForm parseFloat_opt_def p js_or_def truthy_def
        validateNumber_accept accept_Fin_bounds)
qed

theorem insurance_zero_is_default_witness:
  "insuranceRate (settings (saveSettingsFromForm
      \<lparr>stitch_rate_input = Some ''0.75'', applique_rate_input = Some ''1.50'',
       insurance_rate_input = Some ''0''\<rparr>
      (new_EmbroideryCalculator \<lparr>item = None, getItem_throws = False, setItem_throws = False\<rparr>)))
   = number_value 0.10"
  using insurance_zero_is_default [of
      "\<lparr>stitch_rate_input = Some ''0.75'', applique_rate_input = Some ''1.50'',
        insurance_rate_input = Some ''0''\<rparr>"
      "new_EmbroideryCalculator \<lparr>item = None, getItem_throws = False, setItem_throws = False\<rparr>"]
  by simp

section \<open>Admission of an order\<close>

lemma validateInput_required:
  assumes "i_required i" "i_value i = [] \<or> isNaN (parseFloat_str (i_value i))"
  shows "\<not> validateInput i"
  using assms by (auto simp: validateInput_def Let_def)

text \<open>
  Claim C9. When the form has a required input, as the stitches input is, whose value is
  empty or does not parse to a number, \<open>getFormData\<close> returns \<open>null\<close> and
  \<open>calculatePrice\<close> returns before the pricing: no order is built, so no stitch
  count of 0 stands in for the missing one.
\<close>

theorem required_field_rejected:
  assumes "i \<in> set form" and "i_required i"
    and "i_value i = [] \<or> isNaN (parseFloat_str (i_value i))"
  shows "getFormData form = None \<and> calculatePrice a form = None"
proof -
  have "\<not> validateInput i" using assms(2,3) by (rule validateInput_required)
  with assms(1) have "\<not> list_all validateInput form"
    by (auto simp: list_all_iff)
  then show ?thesis
    by (simp add: getFormData_def calculatePrice_def)
qed

theorem required_field_rejected_witness:
  "calculatePrice
     \<lparr>settings = defaultSettings,
      storage = \<lparr>item = None, getItem_throws = False, setItem_throws = False\<rparr>, events = []\<rparr>
     [\<lparr>i_name = ''stitches'', i_value = '''', i_required = True, i_min = ''0'', i_max = ''''\<rparr>,
      \<lparr>i_name = ''items'', i_value = ''3'', i_required = False, i_min = ''1'', i_max = ''''\<rparr>] = None
   \<and> calculatePrice
     \<lparr>settings = defaultSettings,
      storage = \<lparr>item = None, getItem_throws = False, setItem_throws = False\<rparr>, events = []\<rparr>
     [\<lparr>i_name = ''stitches'', i_value = ''abc'', i_required = True, i_min = ''0'', i_max = ''''\<rparr>,
      \<lparr>i_name = ''items'', i_value = ''3'', i_required = False, i_min = ''1'', i_max = ''''\<rparr>] = None"
proof -
  have n: "isNaN (parseFloat_str ''abc'')" by (simp add: parse_defs isNaN_def)
  show ?thesis
    using required_field_rejected [of
        "\<lparr>i_name = ''stitches'', i_value = '''', i_required = True, i_min = ''0'', i_max = ''''\<rparr>"
        "[\<lparr>i_name = ''stitches'', i_value = '''', i_required = True, i_min = ''0'', i_max = ''''\<rparr>,
          \<lparr>i_name = ''items'', i_value = ''3'', i_required = False, i_min = ''1'', i_max = ''''\<rparr>]"
        "\<lparr>settings = defaultSettings,
          storage = \<lparr>item = None, getItem_throws = False, setItem_throws = False\<rparr>, events = []\<rparr>"]
      required_field_rejected [of
        "\<lparr>i_name = ''stitches'', i_value = ''abc'', i_required = True, i_min = ''0'', i_max = ''''\<rparr>"
        "[\<lparr>i_name = ''stitches'', i_value = ''abc'', i_required = True, i_min = ''0'', i_max = ''''\<rparr>,
          \<lparr>i_name = ''items'', i_value = ''3'', i_required = False, i_min = ''1'', i_max = ''''\<rparr>]"
        "\<lparr>settings = defaultSettings,
          storage = \<lparr>item = None, getItem_throws = False, setItem_throws = False\<rparr>, events = []\<rparr>"]
      n
    by simp
qed

text \<open>
  The \<open>required\<close> attribute is what rejects the request: an empty input without it
  passes, and the stitch count is then 0.
\<close>

lemma optional_stitches_default:
  "getFormData
     [\<lparr>i_name = ''stitches'', i_value = '''', i_required = False, i_min = ''0'', i_max = ''''\<rparr>]
   = Some \<lparr>stitches = Fin 0, items = Fin 1, appliques = Fin 0, blankCost = Fin 0,
           designCost = Fin 0\<rparr>"
  by (simp add: getFormData_def validateInput_def formData_get_def parseInt_def parseInt_str_def
      parseFloat_opt_def js_or_def truthy_def)

end
